theory Spec2Isabelle
  imports Main "HOL-Library.Word"
begin

unbundle bit_operations_syntax

section \<open>Errors\<close>

text \<open>
  Every place of \<^verbatim>\<open>emu.py\<close> where Python raises is a constructor here.
  \<^item> \<open>NameError n\<close>: evaluating the name \<open>n\<close>, which the file does not define. The
    statements \<^verbatim>\<open>raise MemoryRangeError()\<close> of \<^verbatim>\<open>MMU.addBlock\<close> (where the spec has
    OverlapError) and \<^verbatim>\<open>raise ReadOnlyError()\<close> of \<^verbatim>\<open>MMU.write\<close> (where the spec has
    ReadOnlyViolationError) name classes that \<^verbatim>\<open>emu.py\<close> neither defines nor imports, so
    what Python raises there is \<open>NameError ''MemoryRangeError''\<close> and
    \<open>NameError ''ReadOnlyError''\<close>;
  \<^item> \<open>IndexError\<close>: the \<^verbatim>\<open>raise IndexError\<close> of \<^verbatim>\<open>MMU.getBlock\<close> (the spec's
    AddressOutOfRangeError), and an array index out of range;
  \<^item> \<open>OverflowError\<close>: a value outside 0..255 stored into an \<^verbatim>\<open>array('B')\<close>;
  \<^item> \<open>TypeError\<close>: calling the \<^verbatim>\<open>None\<close> of an empty dispatch slot (the spec's
    UnimplementedOpcodeError), or an operation applied to an operand of the wrong kind;
  \<^item> \<open>AttributeError\<close>: looking up a method the object does not have;
  \<^item> \<open>DuplicateOpcode\<close>: the \<^verbatim>\<open>raise Exception("Opcode ... already defined")\<close> of
    \<^verbatim>\<open>CPU._create_ops\<close>.
\<close>

datatype error =
    NameError string
  | IndexError
  | OverflowError
  | TypeError
  | AttributeError
  | DuplicateOpcode

section \<open>Memory blocks and the MMU\<close>

text \<open>
  A block is the dict \<^verbatim>\<open>{'start', 'length', 'readonly', 'memory'}\<close> of \<^verbatim>\<open>addBlock\<close>;
  the field \<^verbatim>\<open>length\<close> is \<open>blength\<close> here. Python integers are unbounded, so
  addresses and lengths are \<open>int\<close>. \<^verbatim>\<open>memory\<close> is an \<^verbatim>\<open>array('B')\<close>: a list of
  integers, every store into it checked to be in 0..255.
\<close>

record block =
  start :: int
  blength :: int
  readonly :: bool
  memory :: "int list"

text \<open>Indexing a Python array: a negative index counts from the end.\<close>

definition array_index :: "int list \<Rightarrow> int \<Rightarrow> error + nat" where
  "array_index m i =
     (let n = int (length m); j = (if i < 0 then i + n else i)
      in if 0 \<le> j \<and> j < n then Inr (nat j) else Inl IndexError)"

definition array_get :: "int list \<Rightarrow> int \<Rightarrow> error + int" where
  "array_get m i = (case array_index m i of Inl e \<Rightarrow> Inl e | Inr j \<Rightarrow> Inr (m ! j))"

definition array_set :: "int list \<Rightarrow> int \<Rightarrow> int \<Rightarrow> error + int list" where
  "array_set m i v =
     (case array_index m i of
        Inl e \<Rightarrow> Inl e
      | Inr j \<Rightarrow> if 0 \<le> v \<and> v \<le> 255 then Inr (m[j := v]) else Inl OverflowError)"

text \<open>
  The initial value of a block: \<^verbatim>\<open>None\<close>, a list of integers, or a readable byte
  stream (modelled by the bytes \<^verbatim>\<open>value.read()\<close> returns).
\<close>

datatype init_value = NoValue | ListValue "int list" | FileValue "8 word list"

text \<open>The test of the \<^verbatim>\<open>for b in self.blocks\<close> loop of \<^verbatim>\<open>addBlock\<close>, for one block.\<close>

definition overlap_test :: "int \<Rightarrow> int \<Rightarrow> block \<Rightarrow> bool" where
  "overlap_test st len b =
     ((st + len > start b \<and> st + len < start b + blength b) \<or>
      (start b + blength b > st \<and> start b + blength b < st + len))"

text \<open>\<^verbatim>\<open>for i in range(len(value)): newBlock['memory'][i+valueOffset] = value[i]\<close>\<close>

fun copy_value :: "int list \<Rightarrow> int \<Rightarrow> int list \<Rightarrow> nat \<Rightarrow> error + int list" where
  "copy_value mem off [] i = Inr mem"
| "copy_value mem off (v # vs) i =
     (case array_set mem (int i + off) v of
        Inl e \<Rightarrow> Inl e
      | Inr mem' \<Rightarrow> copy_value mem' off vs (Suc i))"

definition addBlock ::
  "block list \<Rightarrow> int \<Rightarrow> int \<Rightarrow> bool \<Rightarrow> init_value \<Rightarrow> int \<Rightarrow> error + block list" where
  "addBlock blocks st len ro val off =
     (if list_ex (overlap_test st len) blocks then Inl (NameError ''MemoryRangeError'')
      else
        let zeros = replicate (nat len) 0 in
        case (case val of
                ListValue vs \<Rightarrow> copy_value zeros off vs 0
              | FileValue ws \<Rightarrow> copy_value zeros off (map uint ws) 0
              | NoValue \<Rightarrow> Inr zeros) of
          Inl e \<Rightarrow> Inl e
        | Inr mem \<Rightarrow>
            Inr (blocks @ [\<lparr>start = st, blength = len, readonly = ro, memory = mem\<rparr>]))"

text \<open>
  \<^verbatim>\<open>MMU.__init__\<close>: the descriptors are added in order, the first failure ends the
  construction.
\<close>

fun add_all :: "block list \<Rightarrow> (int \<times> int \<times> bool \<times> init_value \<times> int) list \<Rightarrow> error + block list" where
  "add_all blocks [] = Inr blocks"
| "add_all blocks ((st, len, ro, val, off) # ds) =
     (case addBlock blocks st len ro val off of
        Inl e \<Rightarrow> Inl e
      | Inr blocks' \<Rightarrow> add_all blocks' ds)"

definition MMU_init :: "(int \<times> int \<times> bool \<times> init_value \<times> int) list \<Rightarrow> error + block list" where
  "MMU_init ds = add_all [] ds"

text \<open>
  \<^verbatim>\<open>getBlock\<close> returns a reference to the first block that claims the address; the
  model returns its position in the list, which stands for the reference.
\<close>

fun getBlock :: "block list \<Rightarrow> int \<Rightarrow> error + nat" where
  "getBlock [] addr = Inl IndexError"
| "getBlock (b # bs) addr =
     (if addr \<ge> start b \<and> addr < start b + blength b then Inr 0
      else case getBlock bs addr of Inl e \<Rightarrow> Inl e | Inr k \<Rightarrow> Inr (Suc k))"

definition getIndex :: "block \<Rightarrow> int \<Rightarrow> int" where
  "getIndex b addr = addr - start b"

text \<open>
  \<^verbatim>\<open>MMU.write\<close> and \<^verbatim>\<open>MMU.read\<close> on the block list. \<open>MMU_write\<close> gives the
  outcome and the block list afterwards, since a Python exception does not undo what
  was done before it.
\<close>

definition MMU_write :: "int \<Rightarrow> int \<Rightarrow> block list \<Rightarrow> (error + unit) \<times> block list" where
  "MMU_write addr v blocks =
     (case getBlock blocks addr of
        Inl e \<Rightarrow> (Inl e, blocks)
      | Inr k \<Rightarrow>
          let b = blocks ! k in
          if readonly b then (Inl (NameError ''ReadOnlyError''), blocks)
          else
            (case array_set (memory b) (getIndex b addr) (v AND 0xff) of
               Inl e \<Rightarrow> (Inl e, blocks)
             | Inr mem \<Rightarrow> (Inr (), blocks[k := b\<lparr>memory := mem\<rparr>])))"

definition MMU_read :: "int \<Rightarrow> block list \<Rightarrow> error + int" where
  "MMU_read addr blocks =
     (case getBlock blocks addr of
        Inl e \<Rightarrow> Inl e
      | Inr k \<Rightarrow> let b = blocks ! k in array_get (memory b) (getIndex b addr))"

section \<open>Registers\<close>

text \<open>
  The fields \<^verbatim>\<open>a, x, y, s, pc, p\<close> of \<^verbatim>\<open>Registers\<close> are \<open>r_a\<close>, ..., \<open>r_p\<close> here; the
  keys of \<^verbatim>\<open>flagBit\<close> are the constructors of \<open>flag\<close>.
\<close>

record Registers =
  r_a :: int
  r_x :: int
  r_y :: int
  r_s :: int
  r_pc :: int
  r_p :: int

datatype flag = Flag_N | Flag_V | Flag_B | Flag_D | Flag_I | Flag_Z | Flag_C

fun flagBit :: "flag \<Rightarrow> int" where
  "flagBit Flag_N = 128"
| "flagBit Flag_V = 64"
| "flagBit Flag_B = 16"
| "flagBit Flag_D = 8"
| "flagBit Flag_I = 4"
| "flagBit Flag_Z = 2"
| "flagBit Flag_C = 1"

definition reset_registers :: "int \<Rightarrow> Registers" where
  "reset_registers pc0 = \<lparr>r_a = 0, r_x = 0, r_y = 0, r_s = 0xff, r_pc = pc0, r_p = 0x24\<rparr>"

definition getFlag :: "Registers \<Rightarrow> flag \<Rightarrow> bool" where
  "getFlag rg f = (r_p rg AND flagBit f \<noteq> 0)"

definition clearFlag :: "Registers \<Rightarrow> flag \<Rightarrow> Registers" where
  "clearFlag rg f = rg\<lparr>r_p := r_p rg AND (255 - flagBit f)\<rparr>"

definition setFlag :: "Registers \<Rightarrow> flag \<Rightarrow> bool \<Rightarrow> Registers" where
  "setFlag rg f v = (if v then rg\<lparr>r_p := r_p rg OR flagBit f\<rparr> else clearFlag rg f)"

definition clearFlags :: "Registers \<Rightarrow> Registers" where
  "clearFlags rg = rg\<lparr>r_p := 0\<rparr>"

definition ZN :: "Registers \<Rightarrow> int \<Rightarrow> Registers" where
  "ZN rg v = setFlag (setFlag rg Flag_Z (v = 0)) Flag_N (v AND 0x80 \<noteq> 0)"

section \<open>The CPU\<close>

text \<open>
  The state of a \<^verbatim>\<open>CPU\<close> object together with the MMU it refers to: \<open>regs\<close> is
  \<^verbatim>\<open>self.r\<close>, \<open>mmu\<close> is \<^verbatim>\<open>self.mmu.blocks\<close>. A method of the CPU is a function from
  the state to its outcome (an error or a value) and the state afterwards: what a
  method did before it raised stays done.
\<close>

record CPU =
  regs :: Registers
  cc :: int
  stack_page :: int
  magic :: int
  mmu :: "block list"

type_synonym 'a M = "CPU \<Rightarrow> (error + 'a) \<times> CPU"

definition ret :: "'a \<Rightarrow> 'a M" where
  "ret v = (\<lambda>st. (Inr v, st))"

definition raise :: "error \<Rightarrow> 'a M" where
  "raise e = (\<lambda>st. (Inl e, st))"

definition bnd :: "'a M \<Rightarrow> ('a \<Rightarrow> 'b M) \<Rightarrow> 'b M" where
  "bnd m k = (\<lambda>st. case m st of (Inl e, st') \<Rightarrow> (Inl e, st') | (Inr v, st') \<Rightarrow> k v st')"

definition thn :: "unit M \<Rightarrow> 'b M \<Rightarrow> 'b M" where
  "thn m k = bnd m (\<lambda>_. k)"

definition get_r :: "(Registers \<Rightarrow> 'a) \<Rightarrow> 'a M" where
  "get_r g = (\<lambda>st. (Inr (g (regs st)), st))"

definition upd_r :: "(Registers \<Rightarrow> Registers) \<Rightarrow> unit M" where
  "upd_r g = (\<lambda>st. (Inr (), st\<lparr>regs := g (regs st)\<rparr>))"

definition add_cc :: "int \<Rightarrow> unit M" where
  "add_cc n = (\<lambda>st. (Inr (), st\<lparr>cc := cc st + n\<rparr>))"

definition mem_read :: "int \<Rightarrow> int M" where
  "mem_read addr = (\<lambda>st. (MMU_read addr (mmu st), st))"

definition mem_write :: "int \<Rightarrow> int \<Rightarrow> unit M" where
  "mem_write addr v = (\<lambda>st. case MMU_write addr v (mmu st) of (res, bl) \<Rightarrow> (res, st\<lparr>mmu := bl\<rparr>))"

subsection \<open>Fetching and the stack\<close>

definition nextByte :: "int M" where
  "nextByte =
     bnd (get_r r_pc) (\<lambda>pc.
     bnd (mem_read pc) (\<lambda>v.
     thn (upd_r (\<lambda>rg. rg\<lparr>r_pc := r_pc rg + 1\<rparr>))
       (ret v)))"

definition nextWord :: "int M" where
  "nextWord = bnd nextByte (\<lambda>low. bnd nextByte (\<lambda>high. ret (push_bit 8 high + low)))"

definition stackPush :: "int \<Rightarrow> unit M" where
  "stackPush v =
     (\<lambda>st. thn (mem_write (stack_page st * 0x100 + r_s (regs st)) v)
              (upd_r (\<lambda>rg. rg\<lparr>r_s := (r_s rg - 1) AND 0xff\<rparr>)) st)"

definition stackPushWord :: "int \<Rightarrow> unit M" where
  "stackPushWord v = thn (stackPush (drop_bit 8 v)) (stackPush (v AND 0xff))"

definition stackPop :: "int M" where
  "stackPop =
     (\<lambda>st. bnd (mem_read (stack_page st * 0x100 + ((r_s (regs st) + 1) AND 0xff))) (\<lambda>v.
              thn (upd_r (\<lambda>rg. rg\<lparr>r_s := (r_s rg + 1) AND 0xff\<rparr>))
                (ret v)) st)"

definition stackPopWord :: "int M" where
  "stackPopWord = bnd stackPop (\<lambda>low. bnd stackPop (\<lambda>high. ret (low + push_bit 8 high)))"

definition fromBCD :: "int \<Rightarrow> int" where
  "fromBCD v = ((v AND 0xf0) div 0x10) * 10 + (v AND 0xf)"

text \<open>
  \<^verbatim>\<open>int(math.floor(v/10))\<close> divides as floating point; on the integers a 6502 state
  can hold (far below \<open>2 ^ 53\<close>) the quotient's floor is the integer quotient, which
  rounds down as \<open>div\<close> does. The same holds for the \<^verbatim>\<open>math.floor(o/0xff)\<close> below,
  where the source's variable \<^verbatim>\<open>o\<close> is \<open>w\<close>.
\<close>

definition toBCD :: "int \<Rightarrow> int" where
  "toBCD v = (v div 10) * 16 + (v mod 10)"

definition fromTwosCom :: "int \<Rightarrow> int" where
  "fromTwosCom v = (v AND 0x7f) - (v AND 0x80)"

definition interrupts :: "string \<Rightarrow> int option" where
  "interrupts = map_of [
     (''ABORT'', 0xfff8),
     (''COP'', 0xfff4),
     (''IRQ'', 0xfffe),
     (''BRK'', 0xfffe),
     (''NMI'', 0xfffa),
     (''RESET'', 0xfffc)]"

text \<open>
  \<^verbatim>\<open>interruptAddress\<close> is \<^verbatim>\<open>return self.mmu.readWord(self.interrupts[i])\<close>. The class
  \<^verbatim>\<open>MMU\<close> defines \<^verbatim>\<open>__init__\<close>, \<^verbatim>\<open>addBlock\<close>, \<^verbatim>\<open>getBlock\<close>, \<^verbatim>\<open>getIndex\<close>, \<^verbatim>\<open>write\<close> and
  \<^verbatim>\<open>read\<close>, and no \<^verbatim>\<open>readWord\<close>: Python looks the attribute up before it evaluates the
  argument, and raises AttributeError.
\<close>

definition interruptAddress :: "string \<Rightarrow> int M" where
  "interruptAddress i = raise AttributeError"

subsection \<open>Addressing modes\<close>

text \<open>
  The methods \<^verbatim>\<open>z_a\<close>, ..., \<^verbatim>\<open>iy_a\<close> return an address and keep their names; the
  methods \<^verbatim>\<open>im\<close>, \<^verbatim>\<open>z\<close>, \<^verbatim>\<open>zx\<close>, \<^verbatim>\<open>zy\<close>, \<^verbatim>\<open>a\<close>, \<^verbatim>\<open>ax\<close>, \<^verbatim>\<open>ay\<close>, \<^verbatim>\<open>i\<close>, \<^verbatim>\<open>ix\<close>, \<^verbatim>\<open>iy\<close> return
  a value and are \<open>im_v\<close>, ..., \<open>iy_v\<close> here.
\<close>

definition z_a :: "int M" where
  "z_a = nextByte"

definition zx_a :: "int M" where
  "zx_a = bnd nextByte (\<lambda>b. bnd (get_r r_x) (\<lambda>x. ret ((b + x) AND 0xff)))"

definition zy_a :: "int M" where
  "zy_a = bnd nextByte (\<lambda>b. bnd (get_r r_y) (\<lambda>y. ret ((b + y) AND 0xff)))"

definition a_a :: "int M" where
  "a_a = nextWord"

definition ax_a :: "int M" where
  "ax_a =
     bnd nextWord (\<lambda>w.
     bnd (get_r r_x) (\<lambda>x.
       let a = w + x in
       thn (if w div 0xff \<noteq> a div 0xff then add_cc 1 else ret ())
         (ret (a AND 0xffff))))"

definition ay_a :: "int M" where
  "ay_a =
     bnd nextWord (\<lambda>w.
     bnd (get_r r_y) (\<lambda>y.
       let a = w + y in
       thn (if w div 0xff \<noteq> a div 0xff then add_cc 1 else ret ())
         (ret (a AND 0xffff))))"

definition i_a :: "int M" where
  "i_a =
     bnd nextWord (\<lambda>i.
       let j = (if i AND 0xff = 0xff then i - 0xff else i + 1) in
       bnd (mem_read j) (\<lambda>high.
       bnd (mem_read i) (\<lambda>low.
         ret ((push_bit 8 high + low) AND 0xffff))))"

definition ix_a :: "int M" where
  "ix_a =
     bnd nextByte (\<lambda>b.
     bnd (get_r r_x) (\<lambda>x.
       let i = (b + x) AND 0xff in
       bnd (mem_read ((i + 1) AND 0xff)) (\<lambda>high.
       bnd (mem_read i) (\<lambda>low.
         ret ((push_bit 8 high + low) AND 0xffff)))))"

definition iy_a :: "int M" where
  "iy_a =
     bnd nextByte (\<lambda>i.
     bnd (mem_read ((i + 1) AND 0xff)) (\<lambda>high.
     bnd (mem_read i) (\<lambda>low.
       let w = push_bit 8 high + low in
       bnd (get_r r_y) (\<lambda>y.
         let a = w + y in
         thn (if w div 0xff \<noteq> a div 0xff then add_cc 1 else ret ())
           (ret (a AND 0xffff))))))"

definition im_v :: "int M" where
  "im_v = nextByte"

definition z_v :: "int M" where
  "z_v = bnd z_a mem_read"

definition zx_v :: "int M" where
  "zx_v = bnd zx_a mem_read"

definition zy_v :: "int M" where
  "zy_v = bnd zy_a mem_read"

definition a_v :: "int M" where
  "a_v = bnd a_a mem_read"

definition ax_v :: "int M" where
  "ax_v = bnd ax_a mem_read"

definition ay_v :: "int M" where
  "ay_v = bnd ay_a mem_read"

definition i_v :: "int M" where
  "i_v = bnd i_a mem_read"

definition ix_v :: "int M" where
  "ix_v = bnd ix_a mem_read"

definition iy_v :: "int M" where
  "iy_v = bnd iy_a mem_read"

subsection \<open>Operands\<close>

text \<open>
  An operation is called with what its addressing function returns: a number (a value,
  an address, or the target \<^verbatim>\<open>1\<close>), or one of the other targets of \<^verbatim>\<open>_ops\<close>:
  \<open>Acc\<close> is the string \<^verbatim>\<open>"a"\<close> of the shifts, \<open>Cond f b\<close> a pair such as
  \<^verbatim>\<open>("N", False)\<close> of the branches, \<open>Flag f\<close> a flag name of \<^verbatim>\<open>CL\<close> and \<^verbatim>\<open>SE\<close>,
  \<open>PH r\<close> and \<open>PL r\<close> the pairs \<^verbatim>\<open>("PH", r)\<close> and \<^verbatim>\<open>("PL", r)\<close> of \<^verbatim>\<open>P\<close>, and
  \<open>Move s d\<close> a pair \<^verbatim>\<open>(s, d)\<close> of \<^verbatim>\<open>T\<close>. A register name given to
  \<^verbatim>\<open>getattr\<close>/\<^verbatim>\<open>setattr\<close> is a \<open>reg\<close>.
\<close>

datatype reg = Reg_a | Reg_x | Reg_y | Reg_s | Reg_p

datatype operand =
    Num int
  | Acc
  | Cond flag bool
  | Flag flag
  | PH reg
  | PL reg
  | Move reg reg

fun getattr_r :: "Registers \<Rightarrow> reg \<Rightarrow> int" where
  "getattr_r rg Reg_a = r_a rg"
| "getattr_r rg Reg_x = r_x rg"
| "getattr_r rg Reg_y = r_y rg"
| "getattr_r rg Reg_s = r_s rg"
| "getattr_r rg Reg_p = r_p rg"

fun setattr_r :: "Registers \<Rightarrow> reg \<Rightarrow> int \<Rightarrow> Registers" where
  "setattr_r rg Reg_a v = rg\<lparr>r_a := v\<rparr>"
| "setattr_r rg Reg_x v = rg\<lparr>r_x := v\<rparr>"
| "setattr_r rg Reg_y v = rg\<lparr>r_y := v\<rparr>"
| "setattr_r rg Reg_s v = rg\<lparr>r_s := v\<rparr>"
| "setattr_r rg Reg_p v = rg\<lparr>r_p := v\<rparr>"

subsection \<open>Operations\<close>

text \<open>
  The method \<^verbatim>\<open>ADC\<close> is \<open>op_ADC\<close>, and so on for every operation. An operation
  applied to an operand of a kind it cannot use raises \<open>TypeError\<close>; the dispatch
  table never does that.
\<close>

definition op_ADC :: "int \<Rightarrow> unit M" where
  "op_ADC v2 = upd_r (\<lambda>rg.
     let v1 = r_a rg;
         c = (if getFlag rg Flag_C then 1 else 0);
         (r, rg1) =
           (if getFlag rg Flag_D then
              let d1 = fromBCD v1; d2 = fromBCD v2; r = d1 + d2 + c
              in (r, setFlag (rg\<lparr>r_a := toBCD (r mod 100)\<rparr>) Flag_C (r > 99))
            else
              let r = v1 + v2 + c
              in (r, setFlag (rg\<lparr>r_a := r AND 0xff\<rparr>) Flag_C (r > 0xff)));
         rg2 = ZN rg1 (r_a rg1)
     in setFlag rg2 Flag_V ((NOT (v1 XOR v2)) AND (v1 XOR r) AND 0x80 \<noteq> 0))"

definition op_AND :: "int \<Rightarrow> unit M" where
  "op_AND v = upd_r (\<lambda>rg. let rg1 = rg\<lparr>r_a := (r_a rg AND v) AND 0xff\<rparr> in ZN rg1 (r_a rg1))"

definition op_ASL :: "operand \<Rightarrow> unit M" where
  "op_ASL t =
     bnd (case t of
            Acc \<Rightarrow>
              bnd (get_r r_a) (\<lambda>a.
                let v = push_bit 1 a in
                thn (upd_r (\<lambda>rg. rg\<lparr>r_a := v AND 0xff\<rparr>)) (ret v))
          | Num addr \<Rightarrow>
              bnd (mem_read addr) (\<lambda>m.
                let v = push_bit 1 m in
                thn (mem_write addr v) (ret v))
          | _ \<Rightarrow> raise TypeError)
       (\<lambda>v. upd_r (\<lambda>rg. ZN (setFlag rg Flag_C (v > 0xff)) (v AND 0xff)))"

definition op_BIT :: "int \<Rightarrow> unit M" where
  "op_BIT v = upd_r (\<lambda>rg.
     setFlag (setFlag (setFlag rg Flag_Z (r_a rg AND v = 0)) Flag_N (v AND 0x80 \<noteq> 0))
       Flag_V (v AND 0x40 \<noteq> 0))"

definition op_B :: "flag \<Rightarrow> bool \<Rightarrow> unit M" where
  "op_B fl want =
     bnd im_v (\<lambda>d.
     bnd (get_r (\<lambda>rg. getFlag rg fl)) (\<lambda>isset.
       if isset = want then
         bnd (get_r r_pc) (\<lambda>w.
         thn (upd_r (\<lambda>rg. rg\<lparr>r_pc := r_pc rg + fromTwosCom d\<rparr>))
           (bnd (get_r r_pc) (\<lambda>pc'.
              if w div 0xff = pc' div 0xff then add_cc 1 else add_cc 2)))
       else ret ()))"

definition op_BRK :: "unit M" where
  "op_BRK =
     thn (upd_r (\<lambda>rg. setFlag rg Flag_B True))
       (bnd (get_r r_pc) (\<lambda>pc.
        thn (stackPushWord (pc + 1))
          (bnd (get_r r_p) (\<lambda>p.
           thn (stackPush p)
             (thn (upd_r (\<lambda>rg. setFlag rg Flag_I True))
                (bnd (interruptAddress ''BRK'') (\<lambda>v.
                   upd_r (\<lambda>rg. rg\<lparr>r_pc := v\<rparr>))))))))"

definition CP :: "int \<Rightarrow> int \<Rightarrow> unit M" where
  "CP r v = upd_r (\<lambda>rg.
     let d = (r - v) AND 0xff in
     setFlag (setFlag (setFlag rg Flag_Z (d = 0)) Flag_C (v \<le> r)) Flag_N (d AND 0x80 \<noteq> 0))"

definition op_CMP :: "int \<Rightarrow> unit M" where
  "op_CMP v = bnd (get_r r_a) (\<lambda>r. CP r v)"

definition op_CPX :: "int \<Rightarrow> unit M" where
  "op_CPX v = bnd (get_r r_x) (\<lambda>r. CP r v)"

definition op_CPY :: "int \<Rightarrow> unit M" where
  "op_CPY v = bnd (get_r r_y) (\<lambda>r. CP r v)"

definition op_DEC :: "int \<Rightarrow> unit M" where
  "op_DEC addr =
     bnd (mem_read addr) (\<lambda>m.
       let v = (m - 1) AND 0xff in
       thn (mem_write addr v) (upd_r (\<lambda>rg. ZN rg v)))"

definition op_DEX :: "unit M" where
  "op_DEX = upd_r (\<lambda>rg. let rg1 = rg\<lparr>r_x := (r_x rg - 1) AND 0xff\<rparr> in ZN rg1 (r_x rg1))"

definition op_DEY :: "unit M" where
  "op_DEY = upd_r (\<lambda>rg. let rg1 = rg\<lparr>r_y := (r_y rg - 1) AND 0xff\<rparr> in ZN rg1 (r_y rg1))"

definition op_EOR :: "int \<Rightarrow> unit M" where
  "op_EOR v = upd_r (\<lambda>rg. let rg1 = rg\<lparr>r_a := r_a rg XOR v\<rparr> in ZN rg1 (r_a rg1))"

definition op_SE :: "flag \<Rightarrow> unit M" where
  "op_SE fl = upd_r (\<lambda>rg. setFlag rg fl True)"

definition op_CL :: "flag \<Rightarrow> unit M" where
  "op_CL fl = upd_r (\<lambda>rg. clearFlag rg fl)"

definition op_INC :: "int \<Rightarrow> unit M" where
  "op_INC addr =
     bnd (mem_read addr) (\<lambda>m.
       let v = (m + 1) AND 0xff in
       thn (mem_write addr v) (upd_r (\<lambda>rg. ZN rg v)))"

definition op_INX :: "unit M" where
  "op_INX = upd_r (\<lambda>rg. let rg1 = rg\<lparr>r_x := (r_x rg + 1) AND 0xff\<rparr> in ZN rg1 (r_x rg1))"

definition op_INY :: "unit M" where
  "op_INY = upd_r (\<lambda>rg. let rg1 = rg\<lparr>r_y := (r_y rg + 1) AND 0xff\<rparr> in ZN rg1 (r_y rg1))"

definition op_JMP :: "int \<Rightarrow> unit M" where
  "op_JMP addr = upd_r (\<lambda>rg. rg\<lparr>r_pc := addr\<rparr>)"

definition op_JSR :: "int \<Rightarrow> unit M" where
  "op_JSR addr =
     bnd (get_r r_pc) (\<lambda>pc.
     thn (stackPushWord (pc - 1)) (upd_r (\<lambda>rg. rg\<lparr>r_pc := addr\<rparr>)))"

definition op_LDA :: "int \<Rightarrow> unit M" where
  "op_LDA v = upd_r (\<lambda>rg. let rg1 = rg\<lparr>r_a := v\<rparr> in ZN rg1 (r_a rg1))"

definition op_LDX :: "int \<Rightarrow> unit M" where
  "op_LDX v = upd_r (\<lambda>rg. let rg1 = rg\<lparr>r_x := v\<rparr> in ZN rg1 (r_x rg1))"

definition op_LDY :: "int \<Rightarrow> unit M" where
  "op_LDY v = upd_r (\<lambda>rg. let rg1 = rg\<lparr>r_y := v\<rparr> in ZN rg1 (r_y rg1))"

definition op_LSR :: "operand \<Rightarrow> unit M" where
  "op_LSR t =
     bnd (case t of
            Acc \<Rightarrow>
              bnd (get_r r_a) (\<lambda>a.
                let v = drop_bit 1 a in
                thn (upd_r (\<lambda>rg. (setFlag rg Flag_C (a AND 0x01 \<noteq> 0))\<lparr>r_a := v\<rparr>)) (ret v))
          | Num addr \<Rightarrow>
              bnd (mem_read addr) (\<lambda>m.
                thn (upd_r (\<lambda>rg. setFlag rg Flag_C (m AND 0x01 \<noteq> 0)))
                  (let v = drop_bit 1 m in
                   thn (mem_write addr v) (ret v)))
          | _ \<Rightarrow> raise TypeError)
       (\<lambda>v. upd_r (\<lambda>rg. ZN rg v))"

definition op_NOP :: "unit M" where
  "op_NOP = ret ()"

definition op_ORA :: "int \<Rightarrow> unit M" where
  "op_ORA v = upd_r (\<lambda>rg. let rg1 = rg\<lparr>r_a := r_a rg OR v\<rparr> in ZN rg1 (r_a rg1))"

definition op_P :: "operand \<Rightarrow> unit M" where
  "op_P t =
     (case t of
        PH r \<Rightarrow> bnd (get_r (\<lambda>rg. getattr_r rg r)) stackPush
      | PL r \<Rightarrow>
          bnd stackPop (\<lambda>v.
            upd_r (\<lambda>rg.
              let rg1 = setattr_r rg r v in
              if r = Reg_a then ZN rg1 (r_a rg1)
              else if r = Reg_p then rg1\<lparr>r_p := r_p rg1 OR 0x20\<rparr>
              else rg1))
      | _ \<Rightarrow> raise TypeError)"

definition op_ROL :: "operand \<Rightarrow> unit M" where
  "op_ROL t =
     bnd (case t of
            Acc \<Rightarrow>
              bnd (get_r (\<lambda>rg. (r_a rg, if getFlag rg Flag_C then 1 else 0))) (\<lambda>(v_old, c).
                let v_new = (push_bit 1 v_old + c) AND 0xff in
                thn (upd_r (\<lambda>rg. rg\<lparr>r_a := v_new\<rparr>)) (ret (v_old, v_new)))
          | Num addr \<Rightarrow>
              bnd (mem_read addr) (\<lambda>v_old.
              bnd (get_r (\<lambda>rg. if getFlag rg Flag_C then 1 else 0)) (\<lambda>c.
                let v_new = (push_bit 1 v_old + c) AND 0xff in
                thn (mem_write addr v_new) (ret (v_old, v_new))))
          | _ \<Rightarrow> raise TypeError)
       (\<lambda>(v_old, v_new). upd_r (\<lambda>rg. ZN (setFlag rg Flag_C (v_old AND 0x80 \<noteq> 0)) v_new))"

definition op_ROR :: "operand \<Rightarrow> unit M" where
  "op_ROR t =
     bnd (case t of
            Acc \<Rightarrow>
              bnd (get_r (\<lambda>rg. (r_a rg, if getFlag rg Flag_C then 1 else 0))) (\<lambda>(v_old, c).
                let v_new = (drop_bit 1 v_old + c * 0x80) AND 0xff in
                thn (upd_r (\<lambda>rg. rg\<lparr>r_a := v_new\<rparr>)) (ret (v_old, v_new)))
          | Num addr \<Rightarrow>
              bnd (mem_read addr) (\<lambda>v_old.
              bnd (get_r (\<lambda>rg. if getFlag rg Flag_C then 1 else 0)) (\<lambda>c.
                let v_new = (drop_bit 1 v_old + c * 0x80) AND 0xff in
                thn (mem_write addr v_new) (ret (v_old, v_new))))
          | _ \<Rightarrow> raise TypeError)
       (\<lambda>(v_old, v_new). upd_r (\<lambda>rg. ZN (setFlag rg Flag_C (v_old AND 0x01 \<noteq> 0)) v_new))"

definition op_RTI :: "unit M" where
  "op_RTI =
     bnd stackPop (\<lambda>p.
     thn (upd_r (\<lambda>rg. rg\<lparr>r_p := p\<rparr>))
       (bnd stackPopWord (\<lambda>w. upd_r (\<lambda>rg. rg\<lparr>r_pc := w\<rparr>))))"

definition op_RTS :: "unit M" where
  "op_RTS = bnd stackPopWord (\<lambda>w. upd_r (\<lambda>rg. rg\<lparr>r_pc := (w + 1) AND 0xffff\<rparr>))"

definition op_SBC :: "int \<Rightarrow> unit M" where
  "op_SBC v2 = upd_r (\<lambda>rg.
     let v1 = r_a rg;
         nc = (if getFlag rg Flag_C then 0 else 1);
         (r, rg1) =
           (if getFlag rg Flag_D then
              let d1 = fromBCD v1; d2 = fromBCD v2; r = d1 - d2 - nc
              in (r, rg\<lparr>r_a := toBCD (r mod 100)\<rparr>)
            else
              let r = v1 - v2 - nc
              in (r, rg\<lparr>r_a := r AND 0xff\<rparr>));
         rg2 = setFlag rg1 Flag_C (r \<ge> 0);
         rg3 = setFlag rg2 Flag_V ((v1 XOR v2) AND (v1 XOR r) AND 0x80 \<noteq> 0)
     in ZN rg3 (r_a rg3))"

definition op_STA :: "int \<Rightarrow> unit M" where
  "op_STA addr = bnd (get_r r_a) (mem_write addr)"

definition op_STX :: "int \<Rightarrow> unit M" where
  "op_STX addr = bnd (get_r r_x) (mem_write addr)"

definition op_STY :: "int \<Rightarrow> unit M" where
  "op_STY addr = bnd (get_r r_y) (mem_write addr)"

definition op_T :: "reg \<Rightarrow> reg \<Rightarrow> unit M" where
  "op_T s d = upd_r (\<lambda>rg.
     let rg1 = setattr_r rg d (getattr_r rg s) in
     if d \<noteq> Reg_s then ZN rg1 (getattr_r rg1 d) else rg1)"

subsection \<open>The dispatch table\<close>

text \<open>The class attribute \<^verbatim>\<open>_ops\<close>, entry by entry.\<close>

definition ops_table ::
  "(string \<times> string \<times> (string \<times> int \<times> int list \<times> operand option) list) list" where
  "ops_table = [
    (''ADC'', ''v'', [
       (''im'', 2, [0x69], None),
       (''z'', 3, [0x65], None),
       (''zx'', 4, [0x75], None),
       (''a'', 4, [0x6d], None),
       (''ax'', 4, [0x7d], None),
       (''ay'', 4, [0x79], None),
       (''ix'', 6, [0x61], None),
       (''iy'', 5, [0x71], None)]),
    (''AND'', ''v'', [
       (''im'', 2, [0x29], None),
       (''z'', 3, [0x25], None),
       (''zx'', 4, [0x35], None),
       (''a'', 4, [0x2d], None),
       (''ax'', 4, [0x3d], None),
       (''ay'', 4, [0x39], None),
       (''ix'', 6, [0x21], None),
       (''iy'', 5, [0x31], None)]),
    (''ASL'', ''a'', [
       (''im'', 2, [0x0a], Some Acc),
       (''z'', 5, [0x06], None),
       (''zx'', 6, [0x16], None),
       (''a'', 6, [0x0e], None),
       (''ax'', 7, [0x1e], None)]),
    (''B'', ''v'', [
       (''PL'', 2, [0x10], Some (Cond Flag_N False)),
       (''MI'', 2, [0x30], Some (Cond Flag_N True)),
       (''VC'', 2, [0x50], Some (Cond Flag_V False)),
       (''VC'', 2, [0x70], Some (Cond Flag_V True)),
       (''CC'', 2, [0x90], Some (Cond Flag_C False)),
       (''CS'', 2, [0xb0], Some (Cond Flag_C True)),
       (''NE'', 2, [0xd0], Some (Cond Flag_Z False)),
       (''EQ'', 2, [0xf0], Some (Cond Flag_Z True))]),
    (''BIT'', ''v'', [
       (''z'', 3, [0x24], None),
       (''a'', 4, [0x2c], None)]),
    (''BRK'', ''v'', [
       (''im'', 7, [0x00], Some (Num 1))]),
    (''CMP'', ''v'', [
       (''im'', 2, [0xc9], None),
       (''z'', 3, [0xc5], None),
       (''zx'', 4, [0xd5], None),
       (''a'', 4, [0xcd], None),
       (''ax'', 4, [0xdd], None),
       (''ay'', 4, [0xd9], None),
       (''ix'', 6, [0xc1], None),
       (''iy'', 5, [0xd1], None)]),
    (''CPX'', ''v'', [
       (''im'', 2, [0xe0], None),
       (''z'', 3, [0xe4], None),
       (''a'', 4, [0xec], None)]),
    (''CPY'', ''v'', [
       (''im'', 2, [0xc0], None),
       (''z'', 3, [0xc4], None),
       (''a'', 4, [0xcc], None)]),
    (''DEC'', ''a'', [
       (''z'', 5, [0xc6], None),
       (''zx'', 6, [0xd6], None),
       (''a'', 6, [0xce], None),
       (''ax'', 7, [0xde], None)]),
    (''DEX'', ''a'', [
       (''im'', 2, [0xca], Some (Num 1))]),
    (''DEY'', ''a'', [
       (''im'', 2, [0x88], Some (Num 1))]),
    (''EOR'', ''v'', [
       (''im'', 2, [0x49], None),
       (''z'', 3, [0x45], None),
       (''zx'', 4, [0x55], None),
       (''a'', 4, [0x4d], None),
       (''ax'', 4, [0x5d], None),
       (''ay'', 4, [0x59], None),
       (''ix'', 6, [0x41], None),
       (''iy'', 5, [0x51], None)]),
    (''CL'', ''v'', [
       (''C'', 2, [0x18], Some (Flag Flag_C)),
       (''I'', 2, [0x58], Some (Flag Flag_I)),
       (''V'', 2, [0xb8], Some (Flag Flag_V)),
       (''D'', 2, [0xd8], Some (Flag Flag_D))]),
    (''SE'', ''v'', [
       (''C'', 2, [0x38], Some (Flag Flag_C)),
       (''I'', 2, [0x78], Some (Flag Flag_I)),
       (''D'', 2, [0xf8], Some (Flag Flag_D))]),
    (''INC'', ''a'', [
       (''z'', 5, [0xe6], None),
       (''zx'', 6, [0xf6], None),
       (''a'', 6, [0xee], None),
       (''ax'', 7, [0xfe], None)]),
    (''INX'', ''a'', [
       (''im'', 2, [0xe8], Some (Num 1))]),
    (''INY'', ''a'', [
       (''im'', 2, [0xc8], Some (Num 1))]),
    (''JMP'', ''a'', [
       (''a'', 3, [0x4c], None),
       (''i'', 5, [0x6c], None)]),
    (''JSR'', ''a'', [
       (''a'', 6, [0x20], None)]),
    (''LDA'', ''v'', [
       (''im'', 2, [0xa9], None),
       (''z'', 3, [0xa5], None),
       (''zx'', 4, [0xb5], None),
       (''a'', 4, [0xad], None),
       (''ax'', 4, [0xbd], None),
       (''ay'', 4, [0xb9], None),
       (''ix'', 6, [0xa1], None),
       (''iy'', 5, [0xb1], None)]),
    (''LDX'', ''v'', [
       (''im'', 2, [0xa2], None),
       (''z'', 3, [0xa6], None),
       (''zy'', 4, [0xb6], None),
       (''a'', 4, [0xae], None),
       (''ay'', 4, [0xbe], None)]),
    (''LDY'', ''v'', [
       (''im'', 2, [0xa0], None),
       (''z'', 3, [0xa4], None),
       (''zx'', 4, [0xb4], None),
       (''a'', 4, [0xac], None),
       (''ax'', 4, [0xbc], None)]),
    (''LSR'', ''a'', [
       (''im'', 2, [0x4a], Some Acc),
       (''z'', 5, [0x46], None),
       (''zx'', 6, [0x56], None),
       (''a'', 6, [0x4e], None),
       (''ax'', 7, [0x5e], None)]),
    (''NOP'', ''v'', [
       (''ip'', 2, [0x1a, 0x3a, 0x5a, 0x7a, 0xda, 0xea, 0xfa], Some (Num 1)),
       (''im'', 2, [0x80, 0x82, 0x89, 0xc2, 0xe2], None),
       (''z'', 3, [0x04, 0x44, 0x64], None),
       (''zx'', 4, [0x14, 0x34, 0x54, 0x74, 0xd4, 0xf4], None),
       (''a'', 4, [0x0c], None),
       (''ax'', 4, [0x1c, 0x3c, 0x5c, 0x7c, 0xdc, 0xfc], None)]),
    (''ORA'', ''v'', [
       (''im'', 2, [0x09], None),
       (''z'', 3, [0x05], None),
       (''zx'', 4, [0x15], None),
       (''a'', 4, [0x0d], None),
       (''ax'', 4, [0x1d], None),
       (''ay'', 4, [0x19], None),
       (''ix'', 6, [0x01], None),
       (''iy'', 5, [0x11], None)]),
    (''P'', ''a'', [
       (''PHA'', 3, [0x48], Some (PH Reg_a)),
       (''PLA'', 4, [0x68], Some (PL Reg_a)),
       (''PHP'', 3, [0x08], Some (PH Reg_p)),
       (''PLP'', 4, [0x28], Some (PL Reg_p))]),
    (''T'', ''a'', [
       (''AX'', 2, [0xaa], Some (Move Reg_a Reg_x)),
       (''XA'', 2, [0x8a], Some (Move Reg_x Reg_a)),
       (''AY'', 2, [0xa8], Some (Move Reg_a Reg_y)),
       (''YA'', 2, [0x98], Some (Move Reg_y Reg_a)),
       (''XS'', 2, [0x9a], Some (Move Reg_x Reg_s)),
       (''SX'', 2, [0xba], Some (Move Reg_s Reg_x))]),
    (''ROL'', ''a'', [
       (''im'', 2, [0x2a], Some Acc),
       (''z'', 5, [0x26], None),
       (''zx'', 6, [0x36], None),
       (''a'', 6, [0x2e], None),
       (''ax'', 7, [0x3e], None)]),
    (''ROR'', ''a'', [
       (''im'', 2, [0x6a], Some Acc),
       (''z'', 5, [0x66], None),
       (''zx'', 6, [0x76], None),
       (''a'', 6, [0x6e], None),
       (''ax'', 7, [0x7e], None)]),
    (''RTI'', ''a'', [
       (''im'', 6, [0x40], Some (Num 1))]),
    (''RTS'', ''a'', [
       (''im'', 6, [0x60], Some (Num 1))]),
    (''SBC'', ''v'', [
       (''im'', 2, [0xe9, 0xeb], None),
       (''z'', 3, [0xe5], None),
       (''zx'', 4, [0xf5], None),
       (''a'', 4, [0xed], None),
       (''ax'', 4, [0xfd], None),
       (''ay'', 4, [0xf9], None),
       (''ix'', 6, [0xe1], None),
       (''iy'', 5, [0xf1], None)]),
    (''STA'', ''a'', [
       (''z'', 3, [0x85], None),
       (''zx'', 4, [0x95], None),
       (''a'', 4, [0x8d], None),
       (''ax'', 5, [0x9d], None),
       (''ay'', 5, [0x99], None),
       (''ix'', 6, [0x81], None),
       (''iy'', 6, [0x91], None)]),
    (''STX'', ''a'', [
       (''z'', 3, [0x86], None),
       (''zy'', 4, [0x96], None),
       (''a'', 4, [0x8e], None)]),
    (''STY'', ''a'', [
       (''z'', 3, [0x84], None),
       (''zx'', 4, [0x94], None),
       (''a'', 4, [0x8c], None)])]"

text \<open>
  \<^verbatim>\<open>getattr(self, op)\<close> for an operation, and \<^verbatim>\<open>getattr(self, a)\<close> or
  \<^verbatim>\<open>getattr(self, "%s_a" % a)\<close> for an addressing function: \<open>None\<close> where the class
  has no such method.
\<close>

definition on_num :: "(int \<Rightarrow> unit M) \<Rightarrow> operand \<Rightarrow> unit M" where
  "on_num g t = (case t of Num n \<Rightarrow> g n | _ \<Rightarrow> raise TypeError)"

definition on_cond :: "(flag \<Rightarrow> bool \<Rightarrow> unit M) \<Rightarrow> operand \<Rightarrow> unit M" where
  "on_cond g t = (case t of Cond fl b \<Rightarrow> g fl b | _ \<Rightarrow> raise TypeError)"

definition on_flag :: "(flag \<Rightarrow> unit M) \<Rightarrow> operand \<Rightarrow> unit M" where
  "on_flag g t = (case t of Flag fl \<Rightarrow> g fl | _ \<Rightarrow> raise TypeError)"

definition on_move :: "(reg \<Rightarrow> reg \<Rightarrow> unit M) \<Rightarrow> operand \<Rightarrow> unit M" where
  "on_move g t = (case t of Move s d \<Rightarrow> g s d | _ \<Rightarrow> raise TypeError)"

definition getattr_op :: "string \<Rightarrow> (operand \<Rightarrow> unit M) option" where
  "getattr_op = map_of [
     (''ADC'', on_num op_ADC),
     (''AND'', on_num op_AND),
     (''ASL'', op_ASL),
     (''BIT'', on_num op_BIT),
     (''B'', on_cond op_B),
     (''BRK'', \<lambda>_. op_BRK),
     (''CMP'', on_num op_CMP),
     (''CPX'', on_num op_CPX),
     (''CPY'', on_num op_CPY),
     (''DEC'', on_num op_DEC),
     (''DEX'', \<lambda>_. op_DEX),
     (''DEY'', \<lambda>_. op_DEY),
     (''EOR'', on_num op_EOR),
     (''SE'', on_flag op_SE),
     (''CL'', on_flag op_CL),
     (''INC'', on_num op_INC),
     (''INX'', \<lambda>_. op_INX),
     (''INY'', \<lambda>_. op_INY),
     (''JMP'', on_num op_JMP),
     (''JSR'', on_num op_JSR),
     (''LDA'', on_num op_LDA),
     (''LDX'', on_num op_LDX),
     (''LDY'', on_num op_LDY),
     (''LSR'', op_LSR),
     (''NOP'', \<lambda>_. op_NOP),
     (''ORA'', on_num op_ORA),
     (''P'', op_P),
     (''ROL'', op_ROL),
     (''ROR'', op_ROR),
     (''RTI'', \<lambda>_. op_RTI),
     (''RTS'', \<lambda>_. op_RTS),
     (''SBC'', on_num op_SBC),
     (''STA'', on_num op_STA),
     (''STX'', on_num op_STX),
     (''STY'', on_num op_STY),
     (''T'', on_move op_T)]"

definition as_operand :: "int M \<Rightarrow> operand M" where
  "as_operand m = bnd m (\<lambda>n. ret (Num n))"

definition getattr_mode :: "string \<Rightarrow> operand M option" where
  "getattr_mode = map_of [
     (''z_a'', as_operand z_a),
     (''zx_a'', as_operand zx_a),
     (''zy_a'', as_operand zy_a),
     (''a_a'', as_operand a_a),
     (''ax_a'', as_operand ax_a),
     (''ay_a'', as_operand ay_a),
     (''i_a'', as_operand i_a),
     (''ix_a'', as_operand ix_a),
     (''iy_a'', as_operand iy_a),
     (''im'', as_operand im_v),
     (''z'', as_operand z_v),
     (''zx'', as_operand zx_v),
     (''zy'', as_operand zy_v),
     (''a'', as_operand a_v),
     (''ax'', as_operand ax_v),
     (''ay'', as_operand ay_v),
     (''i'', as_operand i_v),
     (''ix'', as_operand ix_v),
     (''iy'', as_operand iy_v)]"

text \<open>
  \<^verbatim>\<open>_create_ops\<close>. \<open>f_entry\<close> is its inner function \<^verbatim>\<open>f\<close>; \<open>truthy\<close> is Python's
  truth value of a target (\<^verbatim>\<open>if target:\<close>). The list \<^verbatim>\<open>self.ops = [None]*0x100\<close> is a
  function on its indices; \<open>ops_index\<close> is Python's list indexing on 256 elements.
\<close>

definition f_entry :: "(operand \<Rightarrow> unit M) \<Rightarrow> operand M \<Rightarrow> int \<Rightarrow> unit M" where
  "f_entry op_f a_f c = bnd a_f (\<lambda>v. thn (op_f v) (add_cc c))"

definition truthy :: "operand \<Rightarrow> bool" where
  "truthy t = (case t of Num n \<Rightarrow> n \<noteq> 0 | _ \<Rightarrow> True)"

type_synonym dispatch = "int \<Rightarrow> unit M option"

definition ops_index :: "int \<Rightarrow> error + int" where
  "ops_index i = (if - 256 \<le> i \<and> i < 256 then Inr (i mod 256) else Inl IndexError)"

definition select_a_f :: "string \<Rightarrow> string \<Rightarrow> operand option \<Rightarrow> error + operand M" where
  "select_a_f atype a target =
     (let by_name =
            (case getattr_mode (if atype = ''v'' then a else a @ ''_a'') of
               None \<Rightarrow> Inl AttributeError
             | Some m \<Rightarrow> Inr m)
      in case target of
           Some t \<Rightarrow> if truthy t then Inr (ret t) else by_name
         | None \<Rightarrow> by_name)"

fun bind_opcodes :: "dispatch \<Rightarrow> unit M \<Rightarrow> int list \<Rightarrow> error + dispatch" where
  "bind_opcodes tbl fp [] = Inr tbl"
| "bind_opcodes tbl fp (c # cs) =
     (case ops_index c of
        Inl e \<Rightarrow> Inl e
      | Inr k \<Rightarrow>
          if tbl k \<noteq> None then Inl DuplicateOpcode
          else bind_opcodes (tbl(k := Some fp)) fp cs)"

fun bind_variants ::
  "dispatch \<Rightarrow> (operand \<Rightarrow> unit M) \<Rightarrow> string \<Rightarrow>
   (string \<times> int \<times> int list \<times> operand option) list \<Rightarrow> error + dispatch" where
  "bind_variants tbl op_f atype [] = Inr tbl"
| "bind_variants tbl op_f atype ((a, c, opcode, target) # rest) =
     (case select_a_f atype a target of
        Inl e \<Rightarrow> Inl e
      | Inr a_f \<Rightarrow>
          (case bind_opcodes tbl (f_entry op_f a_f c) opcode of
             Inl e \<Rightarrow> Inl e
           | Inr tbl' \<Rightarrow> bind_variants tbl' op_f atype rest))"

fun bind_ops ::
  "dispatch \<Rightarrow> (string \<times> string \<times> (string \<times> int \<times> int list \<times> operand option) list) list \<Rightarrow>
   error + dispatch" where
  "bind_ops tbl [] = Inr tbl"
| "bind_ops tbl ((opn, atype, addrs) # rest) =
     (case getattr_op opn of
        None \<Rightarrow> Inl AttributeError
      | Some op_f \<Rightarrow>
          (case bind_variants tbl op_f atype addrs of
             Inl e \<Rightarrow> Inl e
           | Inr tbl' \<Rightarrow> bind_ops tbl' rest))"

definition create_ops :: "error + dispatch" where
  "create_ops = bind_ops (\<lambda>_. None) ops_table"

text \<open>
  \<open>ops\<close> is \<^verbatim>\<open>self.ops\<close> of a constructed CPU: the table \<open>create_ops\<close> returns (that
  it returns one is \<open>create_ops_succeeds\<close> below).
\<close>

definition ops :: dispatch where
  "ops = (case create_ops of Inr tbl \<Rightarrow> tbl | Inl e \<Rightarrow> (\<lambda>_. None))"

text \<open>
  \<^verbatim>\<open>CPU.__init__\<close>, for a table that was built: \<^verbatim>\<open>if pc:\<close> keeps the reset value 0 of
  \<^verbatim>\<open>pc\<close> for \<^verbatim>\<open>None\<close> and for 0.
\<close>

definition CPU_init :: "block list \<Rightarrow> int option \<Rightarrow> int \<Rightarrow> int \<Rightarrow> CPU" where
  "CPU_init blocks pc0 page mg =
     \<lparr>regs = (case pc0 of
                Some n \<Rightarrow> if n \<noteq> 0 then (reset_registers 0)\<lparr>r_pc := n\<rparr> else reset_registers 0
              | None \<Rightarrow> reset_registers 0),
      cc = 0, stack_page = page, magic = mg, mmu = blocks\<rparr>"

text \<open>
  \<^verbatim>\<open>step\<close>: \<^verbatim>\<open>self.cc = 0; opcode = self.nextByte(); self.ops[opcode]()\<close>. Calling the
  \<^verbatim>\<open>None\<close> of an empty slot raises TypeError.
\<close>

definition step :: "unit M" where
  "step =
     thn (\<lambda>st. (Inr (), st\<lparr>cc := 0\<rparr>))
       (bnd nextByte (\<lambda>opcode.
          case ops_index opcode of
            Inl e \<Rightarrow> raise e
          | Inr k \<Rightarrow> (case ops k of None \<Rightarrow> raise TypeError | Some fp \<Rightarrow> fp)))"

section \<open>Reading the dispatch table\<close>

text \<open>
  Functions of the proofs, not of the source: \<open>lookup_ops k\<close> searches \<^verbatim>\<open>_ops\<close> for the
  entry that lists the opcode \<open>k\<close>, \<open>table_codes\<close> lists all opcodes of the table in
  order, and \<open>names_ok\<close> says that every method name of the table resolves. They state
  what \<open>create_ops\<close> builds (\<open>create_ops_lookup\<close> below).
\<close>

type_synonym variant = "string \<times> int \<times> int list \<times> operand option"

fun lookup_variants :: "int \<Rightarrow> (operand \<Rightarrow> unit M) \<Rightarrow> string \<Rightarrow> variant list \<Rightarrow> unit M option" where
  "lookup_variants k op_f atype [] = None"
| "lookup_variants k op_f atype ((a, c, opcode, target) # rest) =
     (if k \<in> set opcode then
        (case select_a_f atype a target of Inl e \<Rightarrow> None | Inr a_f \<Rightarrow> Some (f_entry op_f a_f c))
      else lookup_variants k op_f atype rest)"

fun lookup_ops :: "int \<Rightarrow> (string \<times> string \<times> variant list) list \<Rightarrow> unit M option" where
  "lookup_ops k [] = None"
| "lookup_ops k ((opn, atype, addrs) # rest) =
     (case (case getattr_op opn of None \<Rightarrow> None | Some op_f \<Rightarrow> lookup_variants k op_f atype addrs) of
        Some fp \<Rightarrow> Some fp
      | None \<Rightarrow> lookup_ops k rest)"

definition variant_codes :: "variant list \<Rightarrow> int list" where
  "variant_codes vs = concat (map (\<lambda>(a, c, opcode, target). opcode) vs)"

definition table_codes :: "(string \<times> string \<times> variant list) list \<Rightarrow> int list" where
  "table_codes t = concat (map (\<lambda>(opn, atype, addrs). variant_codes addrs) t)"

definition modes_ok :: "string \<Rightarrow> variant list \<Rightarrow> bool" where
  "modes_ok atype vs = list_all (\<lambda>(a, c, opcode, target). \<not> isl (select_a_f atype a target)) vs"

definition names_ok :: "(string \<times> string \<times> variant list) list \<Rightarrow> bool" where
  "names_ok t = list_all (\<lambda>(opn, atype, addrs). getattr_op opn \<noteq> None \<and> modes_ok atype addrs) t"

text \<open>
  A block as \<^verbatim>\<open>addBlock\<close> builds it: its array has \<^verbatim>\<open>length\<close> elements.
\<close>

definition block_wf :: "block \<Rightarrow> bool" where
  "block_wf b = (length (memory b) = nat (blength b))"

text \<open>
  A block claims an address that lies in its range: the test of the loop of
  \<^verbatim>\<open>getBlock\<close>, for one block.
\<close>

definition claims :: "block \<Rightarrow> int \<Rightarrow> bool" where
  "claims b addr = (start b \<le> addr \<and> addr < start b + blength b)"

section \<open>Bytes\<close>

text \<open>
  Predicates of the proofs, not of the source: a value within 0..255, registers and
  memory that hold such values, and \<open>keeps m Q\<close>: from a state of bytes, \<open>m\<close> ends in a
  state of bytes, whether it returns or raises, and a value it returns satisfies \<open>Q\<close>.
  \<open>byte_ops\<close> are the operations that store their operand in a register unmasked,
  \<open>value_modes\<close> the addressing functions that return a byte read from memory, and
  \<open>table_typed\<close> says that \<^verbatim>\<open>_ops\<close> gives the former only the latter.
\<close>

definition is_byte :: "int \<Rightarrow> bool" where
  "is_byte v = (0 \<le> v \<and> v \<le> 255)"

definition regs_ok :: "Registers \<Rightarrow> bool" where
  "regs_ok rg =
     (is_byte (r_a rg) \<and> is_byte (r_x rg) \<and> is_byte (r_y rg) \<and> is_byte (r_s rg) \<and> is_byte (r_p rg))"

definition mem_ok :: "block list \<Rightarrow> bool" where
  "mem_ok bs = list_all (\<lambda>b. list_all is_byte (memory b)) bs"

definition state_ok :: "CPU \<Rightarrow> bool" where
  "state_ok st = (regs_ok (regs st) \<and> mem_ok (mmu st))"

definition keeps :: "'a M \<Rightarrow> ('a \<Rightarrow> bool) \<Rightarrow> bool" where
  "keeps m Q =
     (\<forall>st. state_ok st \<longrightarrow>
        state_ok (snd (m st)) \<and> (case fst (m st) of Inl e \<Rightarrow> True | Inr v \<Rightarrow> Q v))"

definition byte_operand :: "operand \<Rightarrow> bool" where
  "byte_operand t = (case t of Num n \<Rightarrow> is_byte n | _ \<Rightarrow> True)"

definition value_modes :: "string list" where
  "value_modes = [''im'', ''z'', ''zx'', ''zy'', ''a'', ''ax'', ''ay'', ''i'', ''ix'', ''iy'']"

definition byte_ops :: "string list" where
  "byte_ops = [''EOR'', ''ORA'', ''LDA'', ''LDX'', ''LDY'']"

definition table_typed :: "(string \<times> string \<times> variant list) list \<Rightarrow> bool" where
  "table_typed t =
     list_all (\<lambda>(opn, atype, addrs).
       if opn \<in> set byte_ops
       then atype = ''v'' \<and> list_all (\<lambda>(a, c, opcode, target). target = None \<and> a \<in> set value_modes) addrs
       else True) t"

section \<open>States of the examples\<close>




definition unmapped_state :: CPU where
  "unmapped_state =
     \<lparr>regs = \<lparr>r_a = 1, r_x = 2, r_y = 3, r_s = 0xff, r_pc = 0x8000, r_p = 0x24\<rparr>,
      cc = 7, stack_page = 1, magic = 0xee,
      mmu = [\<lparr>start = 0x8000, blength = 2, readonly = True, memory = [0x02, 0xea]\<rparr>]\<rparr>"

definition stack_state :: "int \<Rightarrow> int \<Rightarrow> CPU" where
  "stack_state sp byte =
     \<lparr>regs = \<lparr>r_a = 0, r_x = 0, r_y = 0, r_s = sp, r_pc = 0, r_p = 0x24\<rparr>,
      cc = 0, stack_page = 1, magic = 0xee,
      mmu = [\<lparr>start = 0x100, blength = 1, readonly = False, memory = [byte]\<rparr>]\<rparr>"

definition jmp_state :: CPU where
  "jmp_state =
     \<lparr>regs = \<lparr>r_a = 0, r_x = 0, r_y = 0, r_s = 0xff, r_pc = 0x8000, r_p = 0x24\<rparr>,
      cc = 0, stack_page = 1, magic = 0xee,
      mmu = [\<lparr>start = 0x8000, blength = 2, readonly = True, memory = [0xff, 0x30]\<rparr>,
             \<lparr>start = 0x3000, blength = 1, readonly = False, memory = [0x12]\<rparr>,
             \<lparr>start = 0x30ff, blength = 2, readonly = False, memory = [0x34, 0x56]\<rparr>]\<rparr>"

definition index_state :: "int \<Rightarrow> int \<Rightarrow> int \<Rightarrow> CPU" where
  "index_state lo hi idx =
     \<lparr>regs = \<lparr>r_a = 0, r_x = idx, r_y = idx, r_s = 0xff, r_pc = 0x8000, r_p = 0x24\<rparr>,
      cc = 0, stack_page = 1, magic = 0xee,
      mmu = [\<lparr>start = 0x8000, blength = 2, readonly = True, memory = [lo, hi]\<rparr>]\<rparr>"

definition iy_state :: CPU where
  "iy_state =
     \<lparr>regs = \<lparr>r_a = 0, r_x = 0, r_y = 1, r_s = 0xff, r_pc = 0x8000, r_p = 0x24\<rparr>,
      cc = 0, stack_page = 1, magic = 0xee,
      mmu = [\<lparr>start = 0x8000, blength = 1, readonly = True, memory = [0x10]\<rparr>,
             \<lparr>start = 0x10, blength = 2, readonly = False, memory = [0xfe, 0x00]\<rparr>]\<rparr>"

definition adc_state :: "int \<Rightarrow> int \<Rightarrow> CPU" where
  "adc_state acc status =
     \<lparr>regs = \<lparr>r_a = acc, r_x = 0, r_y = 0, r_s = 0xff, r_pc = 0, r_p = status\<rparr>,
      cc = 0, stack_page = 1, magic = 0xee, mmu = []\<rparr>"

definition brk_state :: CPU where
  "brk_state =
     \<lparr>regs = \<lparr>r_a = 0, r_x = 0, r_y = 0, r_s = 0xff, r_pc = 0x8000, r_p = 0x24\<rparr>,
      cc = 0, stack_page = 1, magic = 0xee,
      mmu = [\<lparr>start = 0x8000, blength = 3, readonly = True, memory = [0xa9, 0x42, 0x00]\<rparr>,
             \<lparr>start = 0x1fd, blength = 3, readonly = False, memory = [0, 0, 0]\<rparr>,
             \<lparr>start = 0xfffe, blength = 2, readonly = True, memory = [0x34, 0x12]\<rparr>]\<rparr>"

definition top_state :: CPU where
  "top_state =
     \<lparr>regs = \<lparr>r_a = 0, r_x = 0, r_y = 0, r_s = 0xff, r_pc = 0xffff, r_p = 0x24\<rparr>,
      cc = 0, stack_page = 1, magic = 0xee,
      mmu = [\<lparr>start = 0xffff, blength = 1, readonly = True, memory = [0xea]\<rparr>]\<rparr>"

definition branch_state :: CPU where
  "branch_state =
     \<lparr>regs = \<lparr>r_a = 0, r_x = 0, r_y = 0, r_s = 0xff, r_pc = 0xfffd, r_p = 0x24\<rparr>,
      cc = 0, stack_page = 1, magic = 0xee,
      mmu = [\<lparr>start = 0xfffd, blength = 2, readonly = True, memory = [0x10, 0x7f]\<rparr>]\<rparr>"

section \<open>Masks and unfolding sets\<close>

lemma and_255: "(x::int) AND 255 = x mod 256"
proof -
  have "x AND mask 8 = take_bit 8 x" by (simp add: take_bit_eq_mask)
  then show ?thesis by (simp add: take_bit_eq_mod mask_eq_exp_minus_1)
qed

lemma and_65535: "(x::int) AND 65535 = x mod 65536"
proof -
  have "x AND mask 16 = take_bit 16 x" by (simp add: take_bit_eq_mask)
  then show ?thesis by (simp add: take_bit_eq_mod mask_eq_exp_minus_1)
qed

lemmas monad_defs = ret_def raise_def bnd_def thn_def get_r_def upd_r_def add_cc_def
  mem_read_def mem_write_def

lemmas mmu_defs = MMU_read_def MMU_write_def getIndex_def array_get_def array_set_def
  array_index_def Let_def

lemmas cpu_defs = step_def f_entry_def on_num_def on_cond_def as_operand_def im_v_def nextByte_def
  ops_index_def stackPush_def stackPushWord_def interruptAddress_def

lemmas flag_defs = getFlag_def setFlag_def clearFlag_def ZN_def

section \<open>Properties of the MMU\<close>

lemma getBlock_bound: "getBlock bs addr = Inr k \<Longrightarrow> k < length bs"
  by (induction bs arbitrary: k) (auto split: if_splits sum.splits)



text \<open>
  The block \<^verbatim>\<open>getBlock\<close> returns is the first one in registration order that claims the
  address; where only one block claims it, it is that block.
\<close>

lemma getBlock_first:
  "getBlock bs addr = Inr k \<Longrightarrow> claims (bs ! k) addr \<and> (\<forall>j<k. \<not> claims (bs ! j) addr)"
proof (induction bs arbitrary: k)
  case Nil
  then show ?case by simp
next
  case (Cons b bs)
  show ?case
  proof (cases "claims b addr")
    case True
    then have "k = 0"
      using Cons.prems by (simp add: claims_def)
    then show ?thesis
      using True by simp
  next
    case False
    then obtain k' where k': "getBlock bs addr = Inr k'" "k = Suc k'"
      using Cons.prems by (auto simp: claims_def split: sum.splits)
    have "\<not> claims ((b # bs) ! j) addr" if "j < k" for j
    proof (cases j)
      case 0
      then show ?thesis using False by simp
    next
      case (Suc j')
      then show ?thesis
        using Cons.IH[OF k'(1)] that k'(2) by simp
    qed
    then show ?thesis
      using Cons.IH[OF k'(1)] k'(2) by simp
  qed
qed

lemma getBlock_finds:
  "j < length bs \<Longrightarrow> claims (bs ! j) addr \<Longrightarrow> \<exists>k\<le>j. getBlock bs addr = Inr k"
proof (induction bs arbitrary: j)
  case Nil
  then show ?case by simp
next
  case (Cons b bs)
  show ?case
  proof (cases "claims b addr")
    case True
    then show ?thesis by (simp add: claims_def)
  next
    case False
    then obtain j' where j': "j = Suc j'"
      using Cons.prems(2) by (cases j) auto
    then obtain k where "k \<le> j'" "getBlock bs addr = Inr k"
      using Cons.IH[of j'] Cons.prems by auto
    then show ?thesis
      using False j' by (auto simp: claims_def)
  qed
qed

lemma getBlock_unique:
  assumes "j < length bs" "claims (bs ! j) addr"
    and "\<forall>i<length bs. claims (bs ! i) addr \<longrightarrow> i = j"
  shows "getBlock bs addr = Inr j"
proof -
  obtain k where k: "k \<le> j" "getBlock bs addr = Inr k"
    using getBlock_finds[OF assms(1,2)] by blast
  then have "claims (bs ! k) addr" "k < length bs"
    using getBlock_first[OF k(2)] assms(1) by auto
  then have "k = j"
    using assms(3) by blast
  then show ?thesis
    using k(2) by simp
qed


lemma copy_value_length: "copy_value mem off vs i = Inr mem' \<Longrightarrow> length mem' = length mem"
  by (induction vs arbitrary: mem i) (auto simp: array_set_def split: sum.splits if_splits)

text \<open>
  Every block of a constructed MMU has an array as long as its \<^verbatim>\<open>length\<close>.
\<close>

lemma addBlock_wf:
  assumes "addBlock bs st len ro val off = Inr bs'" "list_all block_wf bs"
  shows "list_all block_wf bs'"
  using assms copy_value_length
  by (cases val) (auto simp: addBlock_def block_wf_def Let_def split: if_splits sum.splits)

lemma add_all_wf: "add_all bs ds = Inr bs' \<Longrightarrow> list_all block_wf bs \<Longrightarrow> list_all block_wf bs'"
proof (induction ds arbitrary: bs)
  case Nil
  then show ?case by simp
next
  case (Cons d ds)
  obtain st len ro val off where d: "d = (st, len, ro, val, off)"
    by (cases d) auto
  show ?case
    using Cons addBlock_wf by (auto simp: d split: sum.splits)
qed

lemma MMU_init_wf: "MMU_init ds = Inr bs \<Longrightarrow> list_all block_wf bs"
  using add_all_wf[of "[]" ds bs] by (simp add: MMU_init_def)






text \<open>
  The overlap test of \<^verbatim>\<open>addBlock\<close> asks whether one end address lies strictly inside
  the other range. For ranges that are not empty it finds exactly the intersecting
  ranges with different ends: a block that ends where the new block ends is never found
  to overlap.
\<close>

lemma overlap_test_iff:
  "0 < len \<Longrightarrow> 0 < blength b \<Longrightarrow>
   overlap_test st len b \<longleftrightarrow>
     (st < start b + blength b \<and> start b < st + len \<and> st + len \<noteq> start b + blength b)"
  by (auto simp: overlap_test_def)

lemma same_end_not_detected: "start b + blength b = st + len \<Longrightarrow> \<not> overlap_test st len b"
  by (simp add: overlap_test_def)

text \<open>
  The two examples of the spec: \<^verbatim>\<open>(0x00,0x10)\<close> then \<^verbatim>\<open>(0x08,0x10)\<close> is refused,
  \<^verbatim>\<open>(0x00,0x10)\<close> then the adjacent \<^verbatim>\<open>(0x10,0x10)\<close> is accepted.
\<close>

lemma overlap_examples:
  "MMU_init [(0x00, 0x10, False, NoValue, 0), (0x08, 0x10, False, NoValue, 0)] = Inl (NameError ''MemoryRangeError'')"
  "MMU_init [(0x00, 0x10, False, NoValue, 0), (0x10, 0x10, False, NoValue, 0)] =
     Inr [\<lparr>start = 0, blength = 0x10, readonly = False, memory = replicate 16 0\<rparr>,
          \<lparr>start = 0x10, blength = 0x10, readonly = False, memory = replicate 16 0\<rparr>]"
  by (simp_all add: MMU_init_def addBlock_def overlap_test_def Let_def)

text \<open>
  C2. \<^verbatim>\<open>addBlock\<close> does not fail exactly when the ranges intersect: registering
  \<^verbatim>\<open>(0x00,0x10)\<close> twice succeeds, and the MMU then holds two blocks that both claim
  the addresses \<^verbatim>\<open>0x00..0x0f\<close>.
\<close>

theorem addBlock_accepts_same_range:
  "MMU_init [(0x00, 0x10, False, NoValue, 0), (0x00, 0x10, False, NoValue, 0)] =
     Inr [\<lparr>start = 0, blength = 0x10, readonly = False, memory = replicate 16 0\<rparr>,
          \<lparr>start = 0, blength = 0x10, readonly = False, memory = replicate 16 0\<rparr>]"
  by (simp add: MMU_init_def addBlock_def overlap_test_def Let_def)

section \<open>Properties of the registers\<close>

lemma flagBit_and: "flagBit f AND flagBit g = (if f = g then flagBit f else 0)"
  by (cases f; cases g; simp)

lemma flagBit_clear: "(255 - flagBit f) AND flagBit g = (if f = g then 0 else flagBit g)"
  by (cases f; cases g; simp)

lemma flagBit_nonzero: "flagBit f \<noteq> 0"
  by (cases f) simp_all

lemma getFlag_clearFlag: "getFlag (clearFlag rg f) g = (if f = g then False else getFlag rg g)"
  by (simp add: getFlag_def clearFlag_def and.assoc flagBit_clear)

lemma getFlag_setFlag: "getFlag (setFlag rg f b) g = (if f = g then b else getFlag rg g)"
proof (cases b)
  case True
  have "(r_p rg OR flagBit f) AND flagBit g = (r_p rg AND flagBit g) OR (flagBit f AND flagBit g)"
    by (simp add: bit.conj_disj_distrib2)
  then show ?thesis
    using True by (simp add: getFlag_def setFlag_def flagBit_and or_eq_0_iff flagBit_nonzero)
next
  case False
  then show ?thesis
    by (simp add: setFlag_def getFlag_clearFlag)
qed

lemma r_a_setFlag: "r_a (setFlag rg f b) = r_a rg"
  by (simp add: setFlag_def clearFlag_def)

lemma r_a_ZN: "r_a (ZN rg v) = r_a rg"
  by (simp add: ZN_def r_a_setFlag)

lemma getFlag_ZN: "f \<noteq> Flag_Z \<Longrightarrow> f \<noteq> Flag_N \<Longrightarrow> getFlag (ZN rg v) f = getFlag rg f"
  by (auto simp: ZN_def getFlag_setFlag)

lemma getFlag_r_a: "getFlag (rg\<lparr>r_a := v\<rparr>) f = getFlag rg f"
  by (simp add: getFlag_def)

text \<open>
  C10. \<^verbatim>\<open>Registers.clearFlags\<close> sets the status byte to 0: afterwards no named flag
  reads as set, and the unused bit 0x20 is clear too.
\<close>

theorem clearFlags_zero:
  "r_p (clearFlags rg) = 0 \<and> (\<forall>f. \<not> getFlag (clearFlags rg) f) \<and> r_p (clearFlags rg) AND 0x20 = 0"
  by (simp add: clearFlags_def getFlag_def)

section \<open>The dispatch table that is built\<close>

text \<open>
  Binding opcodes that are in range, free in the table and pairwise distinct succeeds,
  and the table afterwards maps exactly these opcodes to the new entry.
\<close>

lemma bind_opcodes_ok:
  assumes "\<forall>c\<in>set cs. 0 \<le> c \<and> c < 256 \<and> tbl c = None" "distinct cs"
  shows "\<exists>tbl'. bind_opcodes tbl fp cs = Inr tbl' \<and>
           (\<forall>k. tbl' k = (if k \<in> set cs then Some fp else tbl k))"
  using assms
proof (induction cs arbitrary: tbl)
  case Nil
  then show ?case by simp
next
  case (Cons c cs)
  have idx: "ops_index c = Inr c"
    using Cons.prems by (simp add: ops_index_def)
  have "\<forall>c'\<in>set cs. 0 \<le> c' \<and> c' < 256 \<and> (tbl(c := Some fp)) c' = None"
    using Cons.prems by auto
  moreover have "distinct cs"
    using Cons.prems by simp
  ultimately obtain tbl' where
    t: "bind_opcodes (tbl(c := Some fp)) fp cs = Inr tbl'"
       "\<forall>k. tbl' k = (if k \<in> set cs then Some fp else (tbl(c := Some fp)) k)"
    using Cons.IH by blast
  have "tbl c = None"
    using Cons.prems by simp
  then show ?case
    using t idx by auto
qed

lemma lookup_variants_code:
  "lookup_variants k op_f atype vs = Some fp \<Longrightarrow> k \<in> set (variant_codes vs)"
  by (induction vs) (auto simp: variant_codes_def split: if_splits)

lemma bind_variants_ok:
  assumes "\<forall>c\<in>set (variant_codes vs). 0 \<le> c \<and> c < 256 \<and> tbl c = None"
    and "distinct (variant_codes vs)"
    and "modes_ok atype vs"
  shows "\<exists>tbl'. bind_variants tbl op_f atype vs = Inr tbl' \<and>
           (\<forall>k. tbl' k = (case lookup_variants k op_f atype vs of Some fp \<Rightarrow> Some fp | None \<Rightarrow> tbl k))"
  using assms
proof (induction vs arbitrary: tbl)
  case Nil
  then show ?case by simp
next
  case (Cons v vs)
  obtain a c opcode target where v: "v = (a, c, opcode, target)"
    by (cases v) auto
  have codes: "variant_codes (v # vs) = opcode @ variant_codes vs"
    by (simp add: v variant_codes_def)
  obtain a_f where af: "select_a_f atype a target = Inr a_f"
    using Cons.prems(3) by (cases "select_a_f atype a target") (auto simp: v modes_ok_def)
  have "\<forall>c\<in>set opcode. 0 \<le> c \<and> c < 256 \<and> tbl c = None" "distinct opcode"
    using Cons.prems(1,2) by (auto simp: codes)
  then obtain tbl1 where
    t1: "bind_opcodes tbl (f_entry op_f a_f c) opcode = Inr tbl1"
        "\<forall>k. tbl1 k = (if k \<in> set opcode then Some (f_entry op_f a_f c) else tbl k)"
    using bind_opcodes_ok by blast
  have disj: "set opcode \<inter> set (variant_codes vs) = {}"
    using Cons.prems(2) by (simp add: codes)
  have "\<forall>c\<in>set (variant_codes vs). 0 \<le> c \<and> c < 256 \<and> tbl1 c = None"
    using Cons.prems(1) t1(2) disj by (auto simp: codes)
  moreover have "distinct (variant_codes vs)"
    using Cons.prems(2) by (simp add: codes)
  moreover have "modes_ok atype vs"
    using Cons.prems(3) by (simp add: modes_ok_def)
  ultimately obtain tbl' where
    t: "bind_variants tbl1 op_f atype vs = Inr tbl'"
       "\<forall>k. tbl' k = (case lookup_variants k op_f atype vs of Some fp \<Rightarrow> Some fp | None \<Rightarrow> tbl1 k)"
    using Cons.IH by blast
  have run: "bind_variants tbl op_f atype (v # vs) = Inr tbl'"
    by (simp add: v af t1(1) t(1))
  have "tbl' k = (case lookup_variants k op_f atype (v # vs) of Some fp \<Rightarrow> Some fp | None \<Rightarrow> tbl k)" for k
  proof (cases "k \<in> set opcode")
    case True
    then have "k \<notin> set (variant_codes vs)"
      using disj by auto
    then have "lookup_variants k op_f atype vs = None"
      using lookup_variants_code by (cases "lookup_variants k op_f atype vs") auto
    then show ?thesis
      using True t(2)[rule_format, of k] t1(2)[rule_format, of k] by (simp add: v af split: option.splits)
  next
    case False
    then show ?thesis
      using t(2)[rule_format, of k] t1(2)[rule_format, of k] by (simp add: v split: option.splits)
  qed
  then show ?case
    using run by blast
qed

lemma lookup_ops_code:
  "lookup_ops k t = Some fp \<Longrightarrow> k \<in> set (table_codes t)"
proof (induction t)
  case Nil
  then show ?case by simp
next
  case (Cons e t)
  obtain opn atype addrs where e: "e = (opn, atype, addrs)"
    by (cases e) auto
  show ?case
    using Cons lookup_variants_code
    by (auto simp: e table_codes_def split: option.splits)
qed

lemma bind_ops_ok:
  assumes "\<forall>c\<in>set (table_codes t). 0 \<le> c \<and> c < 256 \<and> tbl c = None"
    and "distinct (table_codes t)"
    and "names_ok t"
  shows "\<exists>tbl'. bind_ops tbl t = Inr tbl' \<and>
           (\<forall>k. tbl' k = (case lookup_ops k t of Some fp \<Rightarrow> Some fp | None \<Rightarrow> tbl k))"
  using assms
proof (induction t arbitrary: tbl)
  case Nil
  then show ?case by simp
next
  case (Cons e t)
  obtain opn atype addrs where e: "e = (opn, atype, addrs)"
    by (cases e) auto
  have codes: "table_codes (e # t) = variant_codes addrs @ table_codes t"
    by (simp add: e table_codes_def)
  obtain op_f where opf: "getattr_op opn = Some op_f"
    using Cons.prems(3) by (auto simp: e names_ok_def)
  have "\<forall>c\<in>set (variant_codes addrs). 0 \<le> c \<and> c < 256 \<and> tbl c = None"
    using Cons.prems(1) by (simp add: codes)
  moreover have "distinct (variant_codes addrs)"
    using Cons.prems(2) by (simp add: codes)
  moreover have "modes_ok atype addrs"
    using Cons.prems(3) by (simp add: e names_ok_def)
  ultimately obtain tbl1 where
    t1: "bind_variants tbl op_f atype addrs = Inr tbl1"
        "\<forall>k. tbl1 k = (case lookup_variants k op_f atype addrs of Some fp \<Rightarrow> Some fp | None \<Rightarrow> tbl k)"
    using bind_variants_ok by blast
  have disj: "set (variant_codes addrs) \<inter> set (table_codes t) = {}"
    using Cons.prems(2) by (simp add: codes)
  have none1: "lookup_variants c op_f atype addrs = None" if "c \<in> set (table_codes t)" for c
  proof -
    have "c \<notin> set (variant_codes addrs)"
      using that disj by auto
    then show ?thesis
      using lookup_variants_code by (cases "lookup_variants c op_f atype addrs") auto
  qed
  have "\<forall>c\<in>set (table_codes t). 0 \<le> c \<and> c < 256 \<and> tbl1 c = None"
    using Cons.prems(1) t1(2) none1 by (auto simp: codes)
  moreover have "distinct (table_codes t)"
    using Cons.prems(2) by (simp add: codes)
  moreover have "names_ok t"
    using Cons.prems(3) by (simp add: names_ok_def)
  ultimately obtain tbl' where
    t: "bind_ops tbl1 t = Inr tbl'"
       "\<forall>k. tbl' k = (case lookup_ops k t of Some fp \<Rightarrow> Some fp | None \<Rightarrow> tbl1 k)"
    using Cons.IH by blast
  have run: "bind_ops tbl (e # t) = Inr tbl'"
    by (simp add: e opf t1(1) t(1))
  have "tbl' k = (case lookup_ops k (e # t) of Some fp \<Rightarrow> Some fp | None \<Rightarrow> tbl k)" for k
  proof (cases "lookup_variants k op_f atype addrs")
    case None
    then show ?thesis
      using t(2)[rule_format, of k] t1(2)[rule_format, of k] by (simp add: e opf split: option.splits)
  next
    case (Some fp)
    then have "k \<in> set (variant_codes addrs)"
      using lookup_variants_code by blast
    then have "k \<notin> set (table_codes t)"
      using disj by auto
    then have "lookup_ops k t = None"
      using lookup_ops_code by (cases "lookup_ops k t") auto
    then show ?thesis
      using Some t(2)[rule_format, of k] t1(2)[rule_format, of k] by (simp add: e opf split: option.splits)
  qed
  then show ?case
    using run by blast
qed

text \<open>
  The opcodes of \<^verbatim>\<open>_ops\<close> are distinct bytes and every method name resolves, so
  \<^verbatim>\<open>_create_ops\<close> raises nothing, and \<^verbatim>\<open>self.ops[k]\<close> is the entry of \<^verbatim>\<open>_ops\<close> that
  lists \<open>k\<close>.
\<close>

lemma ops_table_codes:
  "distinct (table_codes ops_table) \<and> list_all (\<lambda>c. 0 \<le> c \<and> c < 256) (table_codes ops_table)"
  by (simp add: table_codes_def variant_codes_def ops_table_def)

lemma ops_table_names: "names_ok ops_table"
  by (simp add: names_ok_def modes_ok_def ops_table_def getattr_op_def getattr_mode_def select_a_f_def truthy_def)

lemma create_ops_lookup: "\<exists>tbl. create_ops = Inr tbl \<and> (\<forall>k. tbl k = lookup_ops k ops_table)"
proof -
  have "\<exists>tbl'. bind_ops (\<lambda>_. None) ops_table = Inr tbl' \<and>
          (\<forall>k. tbl' k = (case lookup_ops k ops_table of Some fp \<Rightarrow> Some fp | None \<Rightarrow> None))"
  proof (rule bind_ops_ok)
    show "\<forall>c\<in>set (table_codes ops_table). 0 \<le> c \<and> c < 256 \<and> (None :: unit M option) = None"
      using ops_table_codes by (simp add: list_all_iff)
    show "distinct (table_codes ops_table)"
      using ops_table_codes by simp
    show "names_ok ops_table"
      by (rule ops_table_names)
  qed
  then obtain tbl' where
    t: "bind_ops (\<lambda>_. None) ops_table = Inr tbl'"
       "\<forall>k. tbl' k = (case lookup_ops k ops_table of Some fp \<Rightarrow> Some fp | None \<Rightarrow> None)"
    by blast
  have "tbl' k = lookup_ops k ops_table" for k
    using t(2)[rule_format, of k] by (simp split: option.splits)
  then show ?thesis
    using t(1) by (simp add: create_ops_def)
qed

lemma create_ops_succeeds: "create_ops = Inr ops"
proof -
  obtain tbl where t: "create_ops = Inr tbl"
    using create_ops_lookup by blast
  show ?thesis
    by (simp add: ops_def t)
qed

lemma ops_lookup: "ops k = lookup_ops k ops_table"
proof -
  obtain tbl where t: "create_ops = Inr tbl" "\<forall>k. tbl k = lookup_ops k ops_table"
    using create_ops_lookup by blast
  show ?thesis
    using t(2) by (simp add: ops_def t(1))
qed

lemma lookup_2: "lookup_ops 0x02 ops_table = None"
  by (simp add: ops_table_def getattr_op_def)

lemma lookup_0: "lookup_ops 0x00 ops_table = Some (f_entry (\<lambda>_. op_BRK) (ret (Num 1)) 7)"
  by (simp add: ops_table_def getattr_op_def select_a_f_def truthy_def)

lemma lookup_a9: "lookup_ops 0xa9 ops_table = Some (f_entry (on_num op_LDA) (as_operand im_v) 2)"
  by (simp add: ops_table_def getattr_op_def getattr_mode_def select_a_f_def truthy_def)

lemma lookup_10: "lookup_ops 0x10 ops_table = Some (f_entry (on_cond op_B) (ret (Cond Flag_N False)) 2)"
  by (simp add: ops_table_def getattr_op_def select_a_f_def truthy_def)

lemma ops_2: "ops 2 = None"
  using lookup_2 by (simp add: ops_lookup)

lemma ops_0: "ops 0 = Some (f_entry (\<lambda>_. op_BRK) (ret (Num 1)) 7)"
  using lookup_0 by (simp add: ops_lookup)

lemma ops_a9: "ops 0xa9 = Some (f_entry (on_num op_LDA) (as_operand im_v) 2)"
  using lookup_a9 by (simp add: ops_lookup)

lemma ops_10: "ops 0x10 = Some (f_entry (on_cond op_B) (ret (Cond Flag_N False)) 2)"
  using lookup_10 by (simp add: ops_lookup)

section \<open>The stack\<close>

lemma stackPush_ok:
  assumes "MMU_write (stack_page st * 0x100 + r_s (regs st)) v (mmu st) = (Inr (), bl)"
  shows "stackPush v st =
           (Inr (), st\<lparr>regs := (regs st)\<lparr>r_s := (r_s (regs st) - 1) mod 256\<rparr>, mmu := bl\<rparr>)"
  using assms by (simp add: stackPush_def monad_defs and_255)

lemma stackPop_ok:
  assumes "MMU_read (stack_page st * 0x100 + (r_s (regs st) + 1) mod 256) (mmu st) = Inr w"
  shows "stackPop st = (Inr w, st\<lparr>regs := (regs st)\<lparr>r_s := (r_s (regs st) + 1) mod 256\<rparr>\<rparr>)"
  using assms by (simp add: stackPop_def monad_defs and_255)

text \<open>
  C9. A push writes its value at \<open>stack_page * 0x100 + s\<close> and, when the write
  succeeds, leaves \<open>s\<close> decremented modulo 256; a pop reads at
  \<open>stack_page * 0x100 + (s + 1) mod 256\<close> and, when the read succeeds, returns that byte
  and leaves \<open>s\<close> incremented modulo 256. Nothing else of the state changes, and no
  value of \<open>s\<close> raises by itself: from \<open>s = 0x00\<close> a push leaves \<open>s = 0xff\<close>, from
  \<open>s = 0xff\<close> a pop reads at offset 0 of the stack page and leaves \<open>s = 0x00\<close>.
\<close>

theorem stack_push_pop:
  "(MMU_write (stack_page st * 0x100 + r_s (regs st)) v (mmu st) = (Inr (), bl) \<longrightarrow>
      stackPush v st =
        (Inr (), st\<lparr>regs := (regs st)\<lparr>r_s := (r_s (regs st) - 1) mod 256\<rparr>, mmu := bl\<rparr>)) \<and>
   (MMU_read (stack_page st * 0x100 + (r_s (regs st) + 1) mod 256) (mmu st) = Inr w \<longrightarrow>
      stackPop st = (Inr w, st\<lparr>regs := (regs st)\<lparr>r_s := (r_s (regs st) + 1) mod 256\<rparr>\<rparr>))"
  using stackPush_ok stackPop_ok by blast

theorem stack_push_pop_witness:
  "stackPush 0xab (stack_state 0x00 0) = (Inr (), stack_state 0xff 0xab) \<and>
   stackPop (stack_state 0xff 0xab) = (Inr 0xab, stack_state 0x00 0xab)"
proof -
  have w: "MMU_write (stack_page (stack_state 0x00 0) * 0x100 + r_s (regs (stack_state 0x00 0))) 0xab
             (mmu (stack_state 0x00 0)) = (Inr (), mmu (stack_state 0xff 0xab))"
    by (simp add: stack_state_def mmu_defs)
  have r: "MMU_read (stack_page (stack_state 0xff 0xab) * 0x100 +
             (r_s (regs (stack_state 0xff 0xab)) + 1) mod 256) (mmu (stack_state 0xff 0xab)) = Inr 0xab"
    by (simp add: stack_state_def mmu_defs)
  show ?thesis
    using stack_push_pop[of "stack_state 0x00 0" "0xab" "mmu (stack_state 0xff 0xab)" "0xab"]
      stack_push_pop[of "stack_state 0xff 0xab" "0" "[]" "0xab"] w r
    by (simp add: stack_state_def)
qed

section \<open>Addressing modes\<close>

lemma nextWord_cc: "nextWord st = (Inr w, st1) \<Longrightarrow> cc st1 = cc st"
  by (auto simp: nextWord_def nextByte_def monad_defs split: sum.splits)

lemma nextByte_cc: "nextByte st = (Inr w, st1) \<Longrightarrow> cc st1 = cc st"
  by (auto simp: nextByte_def monad_defs split: sum.splits)

text \<open>
  C7. Indirect addressing (\<^verbatim>\<open>i_a\<close>, used by \<^verbatim>\<open>JMP\<close> only): with the pointer word \<open>i\<close>
  fetched after the opcode, the low byte of the target is read at \<open>i\<close> and the high byte
  at \<open>i - 0xff\<close> when the low byte of \<open>i\<close> is \<open>0xff\<close>, at \<open>i + 1\<close> otherwise. For the
  pointer \<^verbatim>\<open>0x30ff\<close> the high byte comes from \<^verbatim>\<open>0x3000\<close>, not from \<^verbatim>\<open>0x3100\<close>.
\<close>

theorem indirect_jmp_page_wrap:
  "nextWord st = (Inr i, st1) \<Longrightarrow>
   MMU_read (if i mod 256 = 255 then i - 255 else i + 1) (mmu st1) = Inr high \<Longrightarrow>
   MMU_read i (mmu st1) = Inr low \<Longrightarrow>
   i_a st = (Inr ((high * 256 + low) mod 65536), st1)"
  by (simp add: i_a_def monad_defs and_255 and_65535 push_bit_eq_mult Let_def)

lemma jmp_fetch:
  "nextWord jmp_state = (Inr 0x30ff, jmp_state\<lparr>regs := (regs jmp_state)\<lparr>r_pc := 0x8002\<rparr>\<rparr>)"
  by (simp add: nextWord_def nextByte_def monad_defs jmp_state_def mmu_defs)

theorem indirect_jmp_page_wrap_witness:
  "nextWord jmp_state = (Inr 0x30ff, jmp_state\<lparr>regs := (regs jmp_state)\<lparr>r_pc := 0x8002\<rparr>\<rparr>) \<and>
   MMU_read 0x3000 (mmu jmp_state) = Inr 0x12 \<and>
   MMU_read 0x3100 (mmu jmp_state) = Inr 0x56 \<and>
   MMU_read 0x30ff (mmu jmp_state) = Inr 0x34 \<and>
   i_a jmp_state = (Inr 0x1234, jmp_state\<lparr>regs := (regs jmp_state)\<lparr>r_pc := 0x8002\<rparr>\<rparr>)"
proof -
  have h: "MMU_read 0x3000 (mmu jmp_state) = Inr 0x12" "MMU_read 0x3100 (mmu jmp_state) = Inr 0x56"
    and l: "MMU_read 0x30ff (mmu jmp_state) = Inr 0x34"
    by (simp_all add: jmp_state_def mmu_defs)
  show ?thesis
    using indirect_jmp_page_wrap[OF jmp_fetch, where high="0x12" and low="0x34"] jmp_fetch h l
    by simp
qed

lemma ax_a_ok:
  assumes "nextWord st = (Inr w, st1)"
  shows "ax_a st = (Inr ((w + r_x (regs st1)) mod 65536),
           st1\<lparr>cc := cc st + (if w div 255 \<noteq> (w + r_x (regs st1)) div 255 then 1 else 0)\<rparr>)"
  using assms nextWord_cc[OF assms] by (simp add: ax_a_def monad_defs Let_def and_65535)

lemma ay_a_ok:
  assumes "nextWord st = (Inr w, st1)"
  shows "ay_a st = (Inr ((w + r_y (regs st1)) mod 65536),
           st1\<lparr>cc := cc st + (if w div 255 \<noteq> (w + r_y (regs st1)) div 255 then 1 else 0)\<rparr>)"
  using assms nextWord_cc[OF assms] by (simp add: ay_a_def monad_defs Let_def and_65535)

lemma iy_a_ok:
  assumes "nextByte st = (Inr i, st1)"
    and "MMU_read ((i + 1) mod 256) (mmu st1) = Inr high"
    and "MMU_read i (mmu st1) = Inr low"
  shows "iy_a st = (Inr ((high * 256 + low + r_y (regs st1)) mod 65536),
           st1\<lparr>cc := cc st + (if (high * 256 + low) div 255 \<noteq> (high * 256 + low + r_y (regs st1)) div 255
                               then 1 else 0)\<rparr>)"
  using assms nextByte_cc[OF assms(1)]
  by (simp add: iy_a_def monad_defs Let_def and_65535 and_255 push_bit_eq_mult)

text \<open>
  C6. Absolute,X and absolute,Y (base \<open>w\<close>, the word fetched after the opcode) and
  indirect-indexed Y (base the word read through the zero-page pointer) return
  base plus index modulo 65536 and add exactly one cycle iff \<open>base div 0xff\<close> differs
  from \<open>(base + index) div 0xff\<close>, and none otherwise. The test is not the comparison
  of the high bytes: from base \<^verbatim>\<open>0xfe\<close> with index 1 a cycle is added though both
  addresses are in page 0, and from base \<^verbatim>\<open>0xff\<close> with index 1 none is added though
  the page changes.
\<close>

theorem page_cross_penalty:
  "(nextWord st = (Inr w, st1) \<longrightarrow>
      ax_a st = (Inr ((w + r_x (regs st1)) mod 65536),
        st1\<lparr>cc := cc st + (if w div 255 \<noteq> (w + r_x (regs st1)) div 255 then 1 else 0)\<rparr>) \<and>
      ay_a st = (Inr ((w + r_y (regs st1)) mod 65536),
        st1\<lparr>cc := cc st + (if w div 255 \<noteq> (w + r_y (regs st1)) div 255 then 1 else 0)\<rparr>)) \<and>
   (nextByte st = (Inr i, st1) \<and> MMU_read ((i + 1) mod 256) (mmu st1) = Inr high \<and>
    MMU_read i (mmu st1) = Inr low \<longrightarrow>
      iy_a st = (Inr ((high * 256 + low + r_y (regs st1)) mod 65536),
        st1\<lparr>cc := cc st + (if (high * 256 + low) div 255 \<noteq> (high * 256 + low + r_y (regs st1)) div 255
                            then 1 else 0)\<rparr>))"
  using ax_a_ok ay_a_ok iy_a_ok by blast

lemma index_fetch:
  "nextWord (index_state lo hi idx) =
     (Inr (push_bit 8 hi + lo), (index_state lo hi idx)\<lparr>regs := (regs (index_state lo hi idx))\<lparr>r_pc := 0x8002\<rparr>\<rparr>)"
  by (simp add: nextWord_def nextByte_def monad_defs index_state_def mmu_defs)

theorem page_cross_penalty_witness:
  "ax_a (index_state 0xfe 0x00 1) =
     (Inr 0xff, (index_state 0xfe 0x00 1)\<lparr>regs := (regs (index_state 0xfe 0x00 1))\<lparr>r_pc := 0x8002\<rparr>, cc := 1\<rparr>) \<and>
   (0xfe :: int) div 256 = 0xff div 256 \<and>
   ay_a (index_state 0xff 0x00 1) =
     (Inr 0x100, (index_state 0xff 0x00 1)\<lparr>regs := (regs (index_state 0xff 0x00 1))\<lparr>r_pc := 0x8002\<rparr>, cc := 0\<rparr>) \<and>
   (0xff :: int) div 256 \<noteq> 0x100 div 256 \<and>
   iy_a iy_state = (Inr 0xff, iy_state\<lparr>regs := (regs iy_state)\<lparr>r_pc := 0x8001\<rparr>, cc := 1\<rparr>)"
proof -
  have xy:
    "ax_a (index_state 0xfe 0x00 1) =
       (Inr 0xff, (index_state 0xfe 0x00 1)\<lparr>regs := (regs (index_state 0xfe 0x00 1))\<lparr>r_pc := 0x8002\<rparr>, cc := 1\<rparr>) \<and>
     (0xfe :: int) div 256 = 0xff div 256 \<and>
     ay_a (index_state 0xff 0x00 1) =
       (Inr 0x100, (index_state 0xff 0x00 1)\<lparr>regs := (regs (index_state 0xff 0x00 1))\<lparr>r_pc := 0x8002\<rparr>, cc := 0\<rparr>) \<and>
     (0xff :: int) div 256 \<noteq> 0x100 div 256"
    using page_cross_penalty[of "index_state 0xfe 0x00 1" "0xfe"
        "(index_state 0xfe 0x00 1)\<lparr>regs := (regs (index_state 0xfe 0x00 1))\<lparr>r_pc := 0x8002\<rparr>\<rparr>" 0 0 0]
      page_cross_penalty[of "index_state 0xff 0x00 1" "0xff"
        "(index_state 0xff 0x00 1)\<lparr>regs := (regs (index_state 0xff 0x00 1))\<lparr>r_pc := 0x8002\<rparr>\<rparr>" 0 0 0]
      index_fetch[of "0xfe" 0 1] index_fetch[of "0xff" 0 1]
    by (simp add: index_state_def)
  let ?st1 = "iy_state\<lparr>regs := (regs iy_state)\<lparr>r_pc := 0x8001\<rparr>\<rparr>"
  have f: "nextByte iy_state = (Inr 0x10, ?st1)"
    by (simp add: nextByte_def monad_defs iy_state_def mmu_defs)
  have h: "MMU_read ((0x10 + 1) mod 256) (mmu ?st1) = Inr 0x00"
    and l: "MMU_read 0x10 (mmu ?st1) = Inr 0xfe"
    by (simp_all add: iy_state_def mmu_defs)
  have iy: "iy_a iy_state = (Inr 0xff, iy_state\<lparr>regs := (regs iy_state)\<lparr>r_pc := 0x8001\<rparr>, cc := 1\<rparr>)"
    using page_cross_penalty[of iy_state 0 ?st1 "0x10" "0x00" "0xfe"] f h l
    by (simp add: iy_state_def)
  show ?thesis
    using xy iy by simp
qed

section \<open>Decimal addition\<close>

text \<open>
  C5, as amended. With the Decimal flag set, \<^verbatim>\<open>ADC\<close> succeeds, stores in \<open>a\<close> the BCD
  encoding of \<open>r mod 100\<close> for the decimal sum
  \<open>r = fromBCD a + fromBCD operand + carry\<close>, sets Carry iff \<open>r > 99\<close>, and sets Overflow
  iff \<open>(NOT (a XOR operand)) AND (a XOR r) AND 0x80\<close> is not zero, with this same \<open>r\<close>: the
  decimal sum as an integer, neither the binary sum nor the byte stored in \<open>a\<close>.
  For \<open>a = 0x15\<close>, operand \<open>0x27\<close> and no carry, \<open>a\<close> becomes \<open>0x42\<close> and Carry is clear.
\<close>

theorem ADC_decimal_mode:
  "getFlag (regs st) Flag_D \<Longrightarrow>
   (let acc = r_a (regs st);
        carry = (if getFlag (regs st) Flag_C then 1 else 0);
        r = fromBCD acc + fromBCD v + carry;
        rg' = regs (snd (op_ADC v st))
    in fst (op_ADC v st) = Inr () \<and>
       r_a rg' = toBCD (r mod 100) \<and>
       getFlag rg' Flag_C = (r > 99) \<and>
       getFlag rg' Flag_V = ((NOT (acc XOR v)) AND (acc XOR r) AND 0x80 \<noteq> 0))"
  by (simp add: op_ADC_def upd_r_def Let_def getFlag_setFlag getFlag_ZN r_a_ZN r_a_setFlag getFlag_r_a)

theorem ADC_decimal_mode_witness:
  "getFlag (regs (adc_state 0x15 0x2c)) Flag_D \<and>
   \<not> getFlag (regs (adc_state 0x15 0x2c)) Flag_C \<and>
   fst (op_ADC 0x27 (adc_state 0x15 0x2c)) = Inr () \<and>
   r_a (regs (snd (op_ADC 0x27 (adc_state 0x15 0x2c)))) = 0x42 \<and>
   \<not> getFlag (regs (snd (op_ADC 0x27 (adc_state 0x15 0x2c)))) Flag_C \<and>
   \<not> getFlag (regs (snd (op_ADC 0x27 (adc_state 0x15 0x2c)))) Flag_V"
proof -
  have d: "getFlag (regs (adc_state 0x15 0x2c)) Flag_D"
    and c: "\<not> getFlag (regs (adc_state 0x15 0x2c)) Flag_C"
    and a: "r_a (regs (adc_state 0x15 0x2c)) = 0x15"
    by (simp_all add: adc_state_def getFlag_def)
  show ?thesis
    using ADC_decimal_mode[OF d, of "0x27"] d c
    by (simp add: Let_def a fromBCD_def toBCD_def)
qed

text \<open>
  C5, as stated, fails: for \<open>a = 0x40\<close>, operand \<open>0x40\<close> and no carry, decimal mode
  leaves Overflow clear, while the formula on the binary sum \<open>0x80\<close> is not zero and
  binary mode on the same operands sets Overflow.
\<close>

theorem ADC_decimal_overflow_differs:
  "getFlag (regs (adc_state 0x40 0x2c)) Flag_D \<and>
   \<not> getFlag (regs (adc_state 0x40 0x2c)) Flag_C \<and>
   \<not> getFlag (regs (snd (op_ADC 0x40 (adc_state 0x40 0x2c)))) Flag_V \<and>
   (NOT ((0x40 :: int) XOR 0x40)) AND (0x40 XOR (0x40 + 0x40 + 0)) AND 0x80 \<noteq> 0 \<and>
   \<not> getFlag (regs (adc_state 0x40 0x24)) Flag_D \<and>
   getFlag (regs (snd (op_ADC 0x40 (adc_state 0x40 0x24)))) Flag_V"
  by (simp add: adc_state_def op_ADC_def upd_r_def Let_def getFlag_def setFlag_def clearFlag_def
      ZN_def fromBCD_def toBCD_def)

section \<open>One step\<close>

lemma step_unmapped:
  assumes "MMU_read (r_pc (regs st)) (mmu st) = Inr opcode"
    and "0 \<le> opcode" "opcode < 256" "ops opcode = None"
  shows "step st = (Inl TypeError, st\<lparr>regs := (regs st)\<lparr>r_pc := r_pc (regs st) + 1\<rparr>, cc := 0\<rparr>)"
  using assms
  by (simp add: step_def thn_def bnd_def nextByte_def get_r_def mem_read_def upd_r_def ret_def
      raise_def ops_index_def)

lemma unmapped_fetch: "MMU_read (r_pc (regs unmapped_state)) (mmu unmapped_state) = Inr 2"
  by (simp add: unmapped_state_def MMU_read_def getIndex_def array_get_def array_index_def Let_def)

text \<open>
  C4, as amended. If the byte at \<open>pc\<close> is an opcode with an empty dispatch slot,
  \<open>step\<close> fails with the TypeError of calling \<^verbatim>\<open>None\<close>, and the state afterwards is the
  state before with \<open>pc\<close> advanced by one and \<open>cc\<close> reset to 0: memory and the registers
  \<open>a\<close>, \<open>x\<close>, \<open>y\<close>, \<open>s\<close>, \<open>p\<close> are as they were.
\<close>

theorem step_unmapped_opcode:
  assumes "MMU_read (r_pc (regs st)) (mmu st) = Inr opcode"
    and "0 \<le> opcode" "opcode < 256" "ops opcode = None"
  shows "step st = (Inl TypeError, st\<lparr>regs := (regs st)\<lparr>r_pc := r_pc (regs st) + 1\<rparr>, cc := 0\<rparr>)"
  using assms by (rule step_unmapped)

theorem step_unmapped_opcode_witness:
  "MMU_read (r_pc (regs unmapped_state)) (mmu unmapped_state) = Inr 2 \<and> ops 2 = None \<and>
   step unmapped_state =
     (Inl TypeError,
      \<lparr>regs = \<lparr>r_a = 1, r_x = 2, r_y = 3, r_s = 0xff, r_pc = 0x8001, r_p = 0x24\<rparr>,
       cc = 0, stack_page = 1, magic = 0xee,
       mmu = [\<lparr>start = 0x8000, blength = 2, readonly = True, memory = [0x02, 0xea]\<rparr>]\<rparr>)"
  using step_unmapped_opcode[OF unmapped_fetch _ _ ops_2] unmapped_fetch ops_2
  by (simp add: unmapped_state_def)

text \<open>
  C4, as stated, fails: at the opcode \<^verbatim>\<open>0x02\<close> the step raises, and \<open>pc\<close> is
  \<^verbatim>\<open>0x8001\<close> and \<open>cc\<close> is 0 afterwards, where they were \<^verbatim>\<open>0x8000\<close> and 7 before.
\<close>

theorem step_unmapped_pc_advanced:
  "fst (step unmapped_state) = Inl TypeError \<and>
   r_pc (regs unmapped_state) = 0x8000 \<and> r_pc (regs (snd (step unmapped_state))) = 0x8001 \<and>
   cc unmapped_state = 7 \<and> cc (snd (step unmapped_state)) = 0"
  using step_unmapped[OF unmapped_fetch _ _ ops_2]
  by (simp add: unmapped_state_def)

text \<open>
  \<^verbatim>\<open>BRK\<close> never completes: whatever the state, it ends in an exception.
\<close>

lemma BRK_never_returns: "fst (op_BRK st) \<noteq> Inr ()"
  by (simp add: op_BRK_def interruptAddress_def monad_defs split: sum.splits prod.splits)

lemma lda_step:
  "step brk_state =
     (Inr (), brk_state\<lparr>regs := (regs brk_state)\<lparr>r_a := 0x42, r_pc := 0x8002\<rparr>, cc := 2\<rparr>)"
  by (simp add: cpu_defs ops_a9 op_LDA_def monad_defs mmu_defs flag_defs brk_state_def)

text \<open>
  C1. The end-to-end example of the spec, with a stack and a BRK vector that holds
  \<^verbatim>\<open>0x1234\<close>: the first step loads \<^verbatim>\<open>0x42\<close>; the second executes \<^verbatim>\<open>BRK\<close>, which pushes
  \<^verbatim>\<open>0x8004\<close> and the status byte and then raises AttributeError where it asks the
  MMU for \<^verbatim>\<open>readWord\<close>: \<open>pc\<close> stays \<^verbatim>\<open>0x8003\<close>, it never becomes \<^verbatim>\<open>0x1234\<close>.
\<close>

theorem BRK_fails_at_vector_read:
  "step brk_state =
     (Inr (), brk_state\<lparr>regs := (regs brk_state)\<lparr>r_a := 0x42, r_pc := 0x8002\<rparr>, cc := 2\<rparr>) \<and>
   MMU_read 0xfffe (mmu brk_state) = Inr 0x34 \<and>
   MMU_read 0xffff (mmu brk_state) = Inr 0x12 \<and>
   fst (step (snd (step brk_state))) = Inl AttributeError \<and>
   r_pc (regs (snd (step (snd (step brk_state))))) = 0x8003 \<and>
   r_s (regs (snd (step (snd (step brk_state))))) = 0xfc \<and>
   memory (mmu (snd (step (snd (step brk_state)))) ! 1) = [0x34, 0x04, 0x80]"
  by (simp add: cpu_defs ops_a9 ops_0 op_LDA_def op_BRK_def monad_defs mmu_defs flag_defs brk_state_def)

text \<open>
  C3. \<open>pc\<close> is not kept within 16 bits: fetching the byte at \<^verbatim>\<open>0xffff\<close> leaves
  \<open>pc = 0x10000\<close>, and the taken branch \<^verbatim>\<open>BPL +127\<close> at \<^verbatim>\<open>0xfffd\<close> leaves
  \<open>pc = 0x1007e\<close>.
\<close>

theorem pc_exceeds_16_bits:
  "nextByte top_state = (Inr 0xea, top_state\<lparr>regs := (regs top_state)\<lparr>r_pc := 0x10000\<rparr>\<rparr>) \<and>
   fst (step branch_state) = Inr () \<and>
   r_pc (regs (snd (step branch_state))) = 0x1007e"
  by (simp add: cpu_defs ops_10 op_B_def fromTwosCom_def monad_defs mmu_defs flag_defs
      top_state_def branch_state_def)

section \<open>Registers and memory stay bytes\<close>

subsection \<open>Bytes\<close>

lemma is_byte_and_ff: "is_byte (v AND 255)"
  by (simp add: is_byte_def and_255)

lemma is_byte_and_l: "is_byte a \<Longrightarrow> is_byte (a AND b)"
  using AND_upper1[of a b] by (simp add: is_byte_def)

lemma is_byte_or: "is_byte a \<Longrightarrow> is_byte b \<Longrightarrow> is_byte (a OR b)"
  using OR_upper[of a 8 b] by (simp add: is_byte_def)

lemma is_byte_xor: "is_byte a \<Longrightarrow> is_byte b \<Longrightarrow> is_byte (a XOR b)"
  using XOR_upper[of a 8 b] by (simp add: is_byte_def)

lemma is_byte_drop: "is_byte a \<Longrightarrow> is_byte (drop_bit 1 a)"
  by (simp add: is_byte_def drop_bit_eq_div) arith

lemma is_byte_drop_Suc: "is_byte a \<Longrightarrow> is_byte (drop_bit (Suc 0) a)"
  using is_byte_drop[of a] by simp

lemma is_byte_toBCD: "is_byte (toBCD (r mod 100))"
proof -
  define d where "d = r mod 100"
  have "0 \<le> d" "d < 100"
    by (simp_all add: d_def)
  then have "0 \<le> d div 10" "d div 10 \<le> 9" "0 \<le> d mod 10" "d mod 10 \<le> 9"
    by auto
  then show ?thesis
    unfolding toBCD_def is_byte_def d_def[symmetric] by linarith
qed

lemma is_byte_flagBit: "is_byte (flagBit f)"
  by (cases f) (simp_all add: is_byte_def)

lemma is_byte_numerals: "is_byte 0" "is_byte 1" "is_byte 32"
  by (simp_all add: is_byte_def)

subsection \<open>Registers of bytes\<close>

lemma regs_ok_fields:
  "regs_ok rg \<Longrightarrow> is_byte (r_a rg)" "regs_ok rg \<Longrightarrow> is_byte (r_x rg)"
  "regs_ok rg \<Longrightarrow> is_byte (r_y rg)" "regs_ok rg \<Longrightarrow> is_byte (r_s rg)"
  "regs_ok rg \<Longrightarrow> is_byte (r_p rg)"
  by (simp_all add: regs_ok_def)

lemma regs_ok_updates:
  "regs_ok rg \<Longrightarrow> is_byte v \<Longrightarrow> regs_ok (rg\<lparr>r_a := v\<rparr>)"
  "regs_ok rg \<Longrightarrow> is_byte v \<Longrightarrow> regs_ok (rg\<lparr>r_x := v\<rparr>)"
  "regs_ok rg \<Longrightarrow> is_byte v \<Longrightarrow> regs_ok (rg\<lparr>r_y := v\<rparr>)"
  "regs_ok rg \<Longrightarrow> is_byte v \<Longrightarrow> regs_ok (rg\<lparr>r_s := v\<rparr>)"
  "regs_ok rg \<Longrightarrow> is_byte v \<Longrightarrow> regs_ok (rg\<lparr>r_p := v\<rparr>)"
  "regs_ok rg \<Longrightarrow> regs_ok (rg\<lparr>r_pc := w\<rparr>)"
  by (simp_all add: regs_ok_def)

lemma regs_ok_clearFlag: "regs_ok rg \<Longrightarrow> regs_ok (clearFlag rg f)"
  by (simp add: clearFlag_def regs_ok_updates regs_ok_fields is_byte_and_l)

lemma regs_ok_setFlag: "regs_ok rg \<Longrightarrow> regs_ok (setFlag rg f b)"
  by (simp add: setFlag_def regs_ok_clearFlag regs_ok_updates regs_ok_fields is_byte_or is_byte_flagBit)

lemma regs_ok_ZN: "regs_ok rg \<Longrightarrow> regs_ok (ZN rg v)"
  by (simp add: ZN_def regs_ok_setFlag)

lemma regs_ok_getattr: "regs_ok rg \<Longrightarrow> is_byte (getattr_r rg r)"
  by (cases r) (simp_all add: regs_ok_fields)

lemma regs_ok_setattr: "regs_ok rg \<Longrightarrow> is_byte v \<Longrightarrow> regs_ok (setattr_r rg r v)"
  by (cases r) (simp_all add: regs_ok_updates)

lemmas ok_simps = is_byte_and_ff is_byte_and_l is_byte_or is_byte_xor is_byte_drop is_byte_drop_Suc
  is_byte_toBCD
  is_byte_flagBit is_byte_numerals regs_ok_fields regs_ok_updates regs_ok_clearFlag regs_ok_setFlag
  regs_ok_ZN regs_ok_getattr regs_ok_setattr

subsection \<open>Memory of bytes\<close>

lemma array_index_bound: "array_index m i = Inr j \<Longrightarrow> j < length m"
  by (auto simp: array_index_def Let_def split: if_splits)

lemma list_all_upd: "list_all P xs \<Longrightarrow> P x \<Longrightarrow> list_all P (xs[i := x])"
  unfolding list_all_iff using set_update_subset_insert[of xs i x] by auto

lemma MMU_read_byte:
  assumes "mem_ok bs" "MMU_read addr bs = Inr v"
  shows "is_byte v"
proof -
  obtain k where k: "getBlock bs addr = Inr k"
    using assms(2) by (cases "getBlock bs addr") (simp_all add: MMU_read_def)
  then have g: "array_get (memory (bs ! k)) (getIndex (bs ! k) addr) = Inr v"
    using assms(2) by (simp add: MMU_read_def Let_def)
  then obtain j where j: "array_index (memory (bs ! k)) (getIndex (bs ! k) addr) = Inr j"
    and v: "v = memory (bs ! k) ! j"
    by (cases "array_index (memory (bs ! k)) (getIndex (bs ! k) addr)") (auto simp: array_get_def)
  have "k < length bs"
    using k by (rule getBlock_bound)
  then have "list_all is_byte (memory (bs ! k))"
    using assms(1) by (simp add: mem_ok_def list_all_length)
  then show ?thesis
    using array_index_bound[OF j] v by (simp add: list_all_length)
qed

lemma MMU_write_mem_ok:
  assumes "mem_ok bs"
  shows "mem_ok (snd (MMU_write addr v bs))"
proof (cases "getBlock bs addr")
  case (Inl e)
  then show ?thesis using assms by (simp add: MMU_write_def)
next
  case (Inr k)
  have kb: "k < length bs"
    using Inr by (rule getBlock_bound)
  then have m: "list_all is_byte (memory (bs ! k))"
    using assms by (simp add: mem_ok_def list_all_length)
  show ?thesis
  proof (cases "array_set (memory (bs ! k)) (getIndex (bs ! k) addr) (v AND 0xff)")
    case (Inl e)
    then show ?thesis using assms Inr by (simp add: MMU_write_def Let_def)
  next
    case (Inr mem)
    then have "list_all is_byte mem"
      using m list_all_upd[OF m is_byte_and_ff]
      by (auto simp: array_set_def split: sum.splits if_splits)
    then have "mem_ok (bs[k := (bs ! k)\<lparr>memory := mem\<rparr>])"
      using assms unfolding mem_ok_def by (intro list_all_upd) simp_all
    then show ?thesis
      using assms Inr \<open>getBlock bs addr = Inr k\<close> by (simp add: MMU_write_def Let_def)
  qed
qed

subsection \<open>Rules for the combinators\<close>

lemma bnd_assoc: "bnd (bnd m k) h = bnd m (\<lambda>x. bnd (k x) h)"
  by (auto simp: bnd_def fun_eq_iff split: prod.splits sum.splits)

lemma bnd_ret: "bnd (ret v) k = k v"
  by (simp add: bnd_def ret_def)

lemma bnd_raise: "bnd (raise e) k = raise e"
  by (simp add: bnd_def raise_def)

lemma bnd_if: "bnd (if c then a else b) k = (if c then bnd a k else bnd b k)"
  by simp

lemmas bnd_simps = bnd_assoc bnd_ret bnd_raise bnd_if thn_def Let_def

lemma keeps_bnd:
  assumes m: "keeps m Q" and k: "\<And>v. Q v \<Longrightarrow> keeps (k v) R"
  shows "keeps (bnd m k) R"
  unfolding keeps_def
proof (intro allI impI)
  fix st
  assume ok: "state_ok st"
  obtain r st' where ms: "m st = (r, st')"
    by (cases "m st")
  from m[unfolded keeps_def, rule_format, OF ok] ms
  have ok': "state_ok st'" and q: "case r of Inl e \<Rightarrow> True | Inr v \<Rightarrow> Q v"
    by simp_all
  show "state_ok (snd (bnd m k st)) \<and> (case fst (bnd m k st) of Inl e \<Rightarrow> True | Inr v \<Rightarrow> R v)"
  proof (cases r)
    case (Inl e)
    then show ?thesis
      using ms ok' by (simp add: bnd_def)
  next
    case (Inr v)
    then have "keeps (k v) R"
      using q k by simp
    then show ?thesis
      using ms Inr ok' by (simp add: bnd_def keeps_def)
  qed
qed

lemma keeps_weaken: "keeps m Q \<Longrightarrow> (\<And>v. Q v \<Longrightarrow> R v) \<Longrightarrow> keeps m R"
  by (auto simp: keeps_def split: sum.splits)

lemma keeps_ret: "Q v \<Longrightarrow> keeps (ret v) Q"
  by (simp add: keeps_def ret_def)

lemma keeps_raise: "keeps (raise e) Q"
  by (simp add: keeps_def raise_def)

lemma keeps_get_r: "(\<And>rg. regs_ok rg \<Longrightarrow> Q (g rg)) \<Longrightarrow> keeps (get_r g) Q"
  by (simp add: keeps_def get_r_def state_ok_def)

lemma keeps_upd_r: "(\<And>rg. regs_ok rg \<Longrightarrow> regs_ok (g rg)) \<Longrightarrow> Q () \<Longrightarrow> keeps (upd_r g) Q"
  by (simp add: keeps_def upd_r_def state_ok_def)

lemma keeps_add_cc: "Q () \<Longrightarrow> keeps (add_cc n) Q"
  by (simp add: keeps_def add_cc_def state_ok_def)

lemma keeps_mem_read: "(\<And>v. is_byte v \<Longrightarrow> Q v) \<Longrightarrow> keeps (mem_read a) Q"
  by (auto simp: keeps_def mem_read_def state_ok_def split: sum.splits dest: MMU_read_byte)

lemma MMU_write_mem_okD: "MMU_write addr v bs = (r, bl) \<Longrightarrow> mem_ok bs \<Longrightarrow> mem_ok bl"
  using MMU_write_mem_ok[of bs addr v] by simp

lemma keeps_mem_write: "Q () \<Longrightarrow> keeps (mem_write a v) Q"
  by (auto simp: keeps_def mem_write_def state_ok_def split: sum.splits prod.splits
      dest: MMU_write_mem_okD)

lemma keeps_stackPush: "Q () \<Longrightarrow> keeps (stackPush v) Q"
proof -
  assume q: "Q ()"
  have "keeps (bnd (mem_write a v) (\<lambda>_. upd_r (\<lambda>rg. rg\<lparr>r_s := (r_s rg - 1) AND 0xff\<rparr>))) Q" for a
    by (intro keeps_bnd[where Q="\<lambda>_. True"] keeps_mem_write keeps_upd_r)
      (simp_all add: q ok_simps)
  then show ?thesis
    by (simp add: keeps_def stackPush_def thn_def)
qed

lemma keeps_stackPop: "(\<And>v. is_byte v \<Longrightarrow> Q v) \<Longrightarrow> keeps stackPop Q"
proof -
  assume q: "\<And>v. is_byte v \<Longrightarrow> Q v"
  have "keeps (bnd (mem_read a) (\<lambda>v. bnd (upd_r (\<lambda>rg. rg\<lparr>r_s := (r_s rg + 1) AND 0xff\<rparr>)) (\<lambda>_. ret v))) Q" for a
    by (intro keeps_bnd[where Q=is_byte] keeps_bnd[where Q="\<lambda>_. True"] keeps_mem_read keeps_upd_r keeps_ret)
      (simp_all add: q ok_simps)
  then show ?thesis
    by (simp add: keeps_def stackPop_def thn_def)
qed

lemma keeps_bnd_get_r:
  "(\<And>rg. regs_ok rg \<Longrightarrow> keeps (k (g rg)) R) \<Longrightarrow> keeps (bnd (get_r g) k) R"
  by (rule keeps_bnd[where Q="\<lambda>v. \<exists>rg. regs_ok rg \<and> v = g rg"]) (auto intro: keeps_get_r)

lemma keeps_bnd_upd_r:
  "(\<And>rg. regs_ok rg \<Longrightarrow> regs_ok (g rg)) \<Longrightarrow> keeps (k ()) R \<Longrightarrow> keeps (bnd (upd_r g) k) R"
  by (rule keeps_bnd[where Q="\<lambda>_. True"]) (auto intro: keeps_upd_r)

lemma keeps_bnd_add_cc: "keeps (k ()) R \<Longrightarrow> keeps (bnd (add_cc n) k) R"
  by (rule keeps_bnd[where Q="\<lambda>_. True"]) (auto intro: keeps_add_cc)

lemma keeps_bnd_mem_read: "(\<And>v. is_byte v \<Longrightarrow> keeps (k v) R) \<Longrightarrow> keeps (bnd (mem_read a) k) R"
  by (rule keeps_bnd[where Q=is_byte]) (auto intro: keeps_mem_read)

lemma keeps_bnd_mem_write: "keeps (k ()) R \<Longrightarrow> keeps (bnd (mem_write a v) k) R"
  by (rule keeps_bnd[where Q="\<lambda>_. True"]) (auto intro: keeps_mem_write)

lemma keeps_bnd_stackPush: "keeps (k ()) R \<Longrightarrow> keeps (bnd (stackPush v) k) R"
  by (rule keeps_bnd[where Q="\<lambda>_. True"]) (auto intro: keeps_stackPush)

lemma keeps_bnd_stackPop: "(\<And>v. is_byte v \<Longrightarrow> keeps (k v) R) \<Longrightarrow> keeps (bnd stackPop k) R"
  by (rule keeps_bnd[where Q=is_byte]) (auto intro: keeps_stackPop)

lemmas keeps_rules = conjI impI allI keeps_ret keeps_raise keeps_get_r keeps_upd_r keeps_add_cc
  keeps_mem_read keeps_mem_write keeps_stackPush keeps_stackPop keeps_bnd_get_r keeps_bnd_upd_r
  keeps_bnd_add_cc keeps_bnd_mem_read keeps_bnd_mem_write keeps_bnd_stackPush keeps_bnd_stackPop

lemmas fetch_defs = nextByte_def nextWord_def stackPushWord_def stackPopWord_def
  interruptAddress_def CP_def

subsection \<open>Fetching and addressing\<close>

lemma keeps_nextByte: "keeps nextByte is_byte"
  by (simp add: fetch_defs bnd_simps; (intro keeps_rules | simp add: ok_simps bnd_simps)+)

lemma keeps_address_modes:
  "keeps z_a (\<lambda>_. True)" "keeps zx_a (\<lambda>_. True)" "keeps zy_a (\<lambda>_. True)"
  "keeps a_a (\<lambda>_. True)" "keeps ax_a (\<lambda>_. True)" "keeps ay_a (\<lambda>_. True)"
  "keeps i_a (\<lambda>_. True)" "keeps ix_a (\<lambda>_. True)" "keeps iy_a (\<lambda>_. True)"
  by ((simp add: z_a_def zx_a_def zy_a_def a_a_def ax_a_def ay_a_def i_a_def ix_a_def iy_a_def
      fetch_defs bnd_simps; (intro keeps_rules | simp add: ok_simps bnd_simps)+)+)

lemma keeps_value_modes:
  "keeps im_v is_byte" "keeps z_v is_byte" "keeps zx_v is_byte" "keeps zy_v is_byte"
  "keeps a_v is_byte" "keeps ax_v is_byte" "keeps ay_v is_byte" "keeps i_v is_byte"
  "keeps ix_v is_byte" "keeps iy_v is_byte"
  by ((simp add: im_v_def z_v_def zx_v_def zy_v_def a_v_def ax_v_def ay_v_def i_v_def ix_v_def
      iy_v_def z_a_def zx_a_def zy_a_def a_a_def ax_a_def ay_a_def i_a_def ix_a_def iy_a_def
      fetch_defs bnd_simps; (intro keeps_rules | simp add: ok_simps bnd_simps)+)+)

subsection \<open>Operations\<close>

lemma keeps_ADC: "keeps (op_ADC v) (\<lambda>_. True)"
  by (simp add: op_ADC_def fetch_defs bnd_simps; (intro keeps_rules | simp add: ok_simps bnd_simps)+)

lemma keeps_AND: "keeps (op_AND v) (\<lambda>_. True)"
  by (simp add: op_AND_def fetch_defs bnd_simps; (intro keeps_rules | simp add: ok_simps bnd_simps)+)

lemma keeps_BIT: "keeps (op_BIT v) (\<lambda>_. True)"
  by (simp add: op_BIT_def fetch_defs bnd_simps; (intro keeps_rules | simp add: ok_simps bnd_simps)+)

lemma keeps_CMP: "keeps (op_CMP v) (\<lambda>_. True)"
  by (simp add: op_CMP_def fetch_defs bnd_simps; (intro keeps_rules | simp add: ok_simps bnd_simps)+)

lemma keeps_CPX: "keeps (op_CPX v) (\<lambda>_. True)"
  by (simp add: op_CPX_def fetch_defs bnd_simps; (intro keeps_rules | simp add: ok_simps bnd_simps)+)

lemma keeps_CPY: "keeps (op_CPY v) (\<lambda>_. True)"
  by (simp add: op_CPY_def fetch_defs bnd_simps; (intro keeps_rules | simp add: ok_simps bnd_simps)+)

lemma keeps_DEC: "keeps (op_DEC v) (\<lambda>_. True)"
  by (simp add: op_DEC_def fetch_defs bnd_simps; (intro keeps_rules | simp add: ok_simps bnd_simps)+)

lemma keeps_INC: "keeps (op_INC v) (\<lambda>_. True)"
  by (simp add: op_INC_def fetch_defs bnd_simps; (intro keeps_rules | simp add: ok_simps bnd_simps)+)

lemma keeps_JMP: "keeps (op_JMP v) (\<lambda>_. True)"
  by (simp add: op_JMP_def fetch_defs bnd_simps; (intro keeps_rules | simp add: ok_simps bnd_simps)+)

lemma keeps_JSR: "keeps (op_JSR v) (\<lambda>_. True)"
  by (simp add: op_JSR_def fetch_defs bnd_simps; (intro keeps_rules | simp add: ok_simps bnd_simps)+)

lemma keeps_SBC: "keeps (op_SBC v) (\<lambda>_. True)"
  by (simp add: op_SBC_def fetch_defs bnd_simps; (intro keeps_rules | simp add: ok_simps bnd_simps)+)

lemma keeps_STA: "keeps (op_STA v) (\<lambda>_. True)"
  by (simp add: op_STA_def fetch_defs bnd_simps; (intro keeps_rules | simp add: ok_simps bnd_simps)+)

lemma keeps_STX: "keeps (op_STX v) (\<lambda>_. True)"
  by (simp add: op_STX_def fetch_defs bnd_simps; (intro keeps_rules | simp add: ok_simps bnd_simps)+)

lemma keeps_STY: "keeps (op_STY v) (\<lambda>_. True)"
  by (simp add: op_STY_def fetch_defs bnd_simps; (intro keeps_rules | simp add: ok_simps bnd_simps)+)

lemma keeps_EOR: "is_byte v \<Longrightarrow> keeps (op_EOR v) (\<lambda>_. True)"
  by (simp add: op_EOR_def fetch_defs bnd_simps; (intro keeps_rules | simp add: ok_simps bnd_simps)+)

lemma keeps_ORA: "is_byte v \<Longrightarrow> keeps (op_ORA v) (\<lambda>_. True)"
  by (simp add: op_ORA_def fetch_defs bnd_simps; (intro keeps_rules | simp add: ok_simps bnd_simps)+)

lemma keeps_LDA: "is_byte v \<Longrightarrow> keeps (op_LDA v) (\<lambda>_. True)"
  by (simp add: op_LDA_def fetch_defs bnd_simps; (intro keeps_rules | simp add: ok_simps bnd_simps)+)

lemma keeps_LDX: "is_byte v \<Longrightarrow> keeps (op_LDX v) (\<lambda>_. True)"
  by (simp add: op_LDX_def fetch_defs bnd_simps; (intro keeps_rules | simp add: ok_simps bnd_simps)+)

lemma keeps_LDY: "is_byte v \<Longrightarrow> keeps (op_LDY v) (\<lambda>_. True)"
  by (simp add: op_LDY_def fetch_defs bnd_simps; (intro keeps_rules | simp add: ok_simps bnd_simps)+)

lemma keeps_BRK: "keeps op_BRK (\<lambda>_. True)"
  by (simp add: op_BRK_def fetch_defs bnd_simps; (intro keeps_rules | simp add: ok_simps bnd_simps)+)

lemma keeps_DEX: "keeps op_DEX (\<lambda>_. True)"
  by (simp add: op_DEX_def fetch_defs bnd_simps; (intro keeps_rules | simp add: ok_simps bnd_simps)+)

lemma keeps_DEY: "keeps op_DEY (\<lambda>_. True)"
  by (simp add: op_DEY_def fetch_defs bnd_simps; (intro keeps_rules | simp add: ok_simps bnd_simps)+)

lemma keeps_INX: "keeps op_INX (\<lambda>_. True)"
  by (simp add: op_INX_def fetch_defs bnd_simps; (intro keeps_rules | simp add: ok_simps bnd_simps)+)

lemma keeps_INY: "keeps op_INY (\<lambda>_. True)"
  by (simp add: op_INY_def fetch_defs bnd_simps; (intro keeps_rules | simp add: ok_simps bnd_simps)+)

lemma keeps_NOP: "keeps op_NOP (\<lambda>_. True)"
  by (simp add: op_NOP_def fetch_defs bnd_simps; (intro keeps_rules | simp add: ok_simps bnd_simps)+)

lemma keeps_RTI: "keeps op_RTI (\<lambda>_. True)"
  by (simp add: op_RTI_def fetch_defs bnd_simps; (intro keeps_rules | simp add: ok_simps bnd_simps)+)

lemma keeps_RTS: "keeps op_RTS (\<lambda>_. True)"
  by (simp add: op_RTS_def fetch_defs bnd_simps; (intro keeps_rules | simp add: ok_simps bnd_simps)+)

lemma keeps_ASL: "keeps (op_ASL t) (\<lambda>_. True)"
  by (cases t; simp add: op_ASL_def fetch_defs bnd_simps; (intro keeps_rules | simp add: ok_simps bnd_simps)+)

lemma keeps_LSR: "keeps (op_LSR t) (\<lambda>_. True)"
  by (cases t; simp add: op_LSR_def fetch_defs bnd_simps; (intro keeps_rules | simp add: ok_simps bnd_simps)+)

lemma keeps_ROL: "keeps (op_ROL t) (\<lambda>_. True)"
  by (cases t; simp add: op_ROL_def fetch_defs bnd_simps; (intro keeps_rules | simp add: ok_simps bnd_simps)+)

lemma keeps_ROR: "keeps (op_ROR t) (\<lambda>_. True)"
  by (cases t; simp add: op_ROR_def fetch_defs bnd_simps; (intro keeps_rules | simp add: ok_simps bnd_simps)+)

lemma keeps_P: "keeps (op_P t) (\<lambda>_. True)"
  by (cases t; simp add: op_P_def fetch_defs bnd_simps; (intro keeps_rules | simp add: ok_simps bnd_simps)+)

lemma keeps_B: "keeps (op_B fl want) (\<lambda>_. True)"
  by (simp add: op_B_def im_v_def fetch_defs bnd_simps; (intro keeps_rules | simp add: ok_simps bnd_simps)+)

lemma keeps_SE: "keeps (op_SE fl) (\<lambda>_. True)"
  by (simp add: op_SE_def; (intro keeps_rules | simp add: ok_simps bnd_simps)+)

lemma keeps_CL: "keeps (op_CL fl) (\<lambda>_. True)"
  by (simp add: op_CL_def; (intro keeps_rules | simp add: ok_simps bnd_simps)+)

lemma keeps_T: "keeps (op_T s d) (\<lambda>_. True)"
  by (simp add: op_T_def bnd_simps; (intro keeps_rules | simp add: ok_simps bnd_simps)+)

lemma keeps_wrapped_any:
  "keeps (on_num op_ADC t) (\<lambda>_. True)"
  "keeps (on_num op_AND t) (\<lambda>_. True)"
  "keeps (on_num op_BIT t) (\<lambda>_. True)"
  "keeps (on_num op_CMP t) (\<lambda>_. True)"
  "keeps (on_num op_CPX t) (\<lambda>_. True)"
  "keeps (on_num op_CPY t) (\<lambda>_. True)"
  "keeps (on_num op_DEC t) (\<lambda>_. True)"
  "keeps (on_num op_INC t) (\<lambda>_. True)"
  "keeps (on_num op_JMP t) (\<lambda>_. True)"
  "keeps (on_num op_JSR t) (\<lambda>_. True)"
  "keeps (on_num op_SBC t) (\<lambda>_. True)"
  "keeps (on_num op_STA t) (\<lambda>_. True)"
  "keeps (on_num op_STX t) (\<lambda>_. True)"
  "keeps (on_num op_STY t) (\<lambda>_. True)"
  "keeps (on_cond op_B t) (\<lambda>_. True)"
  "keeps (on_flag op_SE t) (\<lambda>_. True)"
  "keeps (on_flag op_CL t) (\<lambda>_. True)"
  "keeps (on_move op_T t) (\<lambda>_. True)"
  by (cases t; simp add: on_num_def on_cond_def on_flag_def on_move_def keeps_raise
      keeps_ADC keeps_AND keeps_BIT keeps_CMP keeps_CPX keeps_CPY keeps_DEC keeps_INC keeps_JMP keeps_JSR keeps_SBC keeps_STA keeps_STX keeps_STY keeps_B keeps_SE keeps_CL keeps_T)+

lemma keeps_wrapped_byte:
  "byte_operand t \<Longrightarrow> keeps (on_num op_EOR t) (\<lambda>_. True)"
  "byte_operand t \<Longrightarrow> keeps (on_num op_ORA t) (\<lambda>_. True)"
  "byte_operand t \<Longrightarrow> keeps (on_num op_LDA t) (\<lambda>_. True)"
  "byte_operand t \<Longrightarrow> keeps (on_num op_LDX t) (\<lambda>_. True)"
  "byte_operand t \<Longrightarrow> keeps (on_num op_LDY t) (\<lambda>_. True)"
  by (cases t; simp add: on_num_def byte_operand_def keeps_raise keeps_EOR keeps_ORA keeps_LDA keeps_LDX keeps_LDY)+

lemmas keeps_plain = keeps_BRK keeps_DEX keeps_DEY keeps_INX keeps_INY keeps_NOP keeps_RTI keeps_RTS keeps_ASL keeps_LSR keeps_ROL keeps_ROR keeps_P

subsection \<open>Every entry of the dispatch table\<close>

lemma keeps_as_operand: "keeps m is_byte \<Longrightarrow> keeps (as_operand m) byte_operand"
  unfolding as_operand_def
  by (rule keeps_bnd[where Q=is_byte]) (auto intro: keeps_ret simp: byte_operand_def)

lemma keeps_as_operand_any: "keeps m Q \<Longrightarrow> keeps (as_operand m) (\<lambda>_. True)"
  unfolding as_operand_def
  by (rule keeps_bnd[where Q=Q]) (auto intro: keeps_ret)

lemma getattr_mode_any: "getattr_mode nm = Some a_f \<Longrightarrow> keeps a_f (\<lambda>_. True)"
  by (auto simp: getattr_mode_def split: if_splits
      intro!: keeps_as_operand_any keeps_address_modes keeps_value_modes)

lemma getattr_mode_byte:
  "getattr_mode nm = Some a_f \<Longrightarrow> nm \<in> set value_modes \<Longrightarrow> keeps a_f byte_operand"
  by (auto simp: getattr_mode_def value_modes_def split: if_splits
      intro!: keeps_as_operand keeps_value_modes)

lemma getattr_op_keeps:
  "getattr_op opn = Some op_f \<Longrightarrow> byte_operand t \<or> opn \<notin> set byte_ops \<Longrightarrow>
   keeps (op_f t) (\<lambda>_. True)"
  by (auto simp: getattr_op_def byte_ops_def keeps_wrapped_any keeps_wrapped_byte keeps_plain
      split: if_splits)

lemma keeps_f_entry:
  assumes "keeps a_f Q" and "\<And>t. Q t \<Longrightarrow> keeps (op_f t) (\<lambda>_. True)"
  shows "keeps (f_entry op_f a_f c) (\<lambda>_. True)"
  unfolding f_entry_def thn_def
  by (rule keeps_bnd[OF assms(1)], rule keeps_bnd[OF assms(2)]) (auto intro: keeps_add_cc)

lemma select_a_f_any: "select_a_f atype a target = Inr a_f \<Longrightarrow> keeps a_f (\<lambda>_. True)"
  by (auto simp: select_a_f_def Let_def split: option.splits if_splits
      intro: keeps_ret getattr_mode_any)

lemma select_a_f_byte:
  "select_a_f ''v'' a None = Inr a_f \<Longrightarrow> a \<in> set value_modes \<Longrightarrow> keeps a_f byte_operand"
  by (auto simp: select_a_f_def Let_def split: option.splits intro: getattr_mode_byte)

lemma lookup_variants_any:
  assumes "\<And>t. keeps (op_f t) (\<lambda>_. True)"
    and "lookup_variants k op_f atype vs = Some fp"
  shows "keeps fp (\<lambda>_. True)"
  using assms(2)
proof (induction vs)
  case Nil
  then show ?case by simp
next
  case (Cons v vs)
  obtain a c opcode target where v: "v = (a, c, opcode, target)"
    by (cases v) auto
  show ?case
  proof (cases "k \<in> set opcode")
    case True
    then obtain a_f where "select_a_f atype a target = Inr a_f" "fp = f_entry op_f a_f c"
      using Cons.prems by (auto simp: v split: sum.splits)
    then show ?thesis
      using keeps_f_entry[OF select_a_f_any, of atype a target a_f op_f c] assms(1) by simp
  next
    case False
    then show ?thesis
      using Cons by (simp add: v)
  qed
qed

lemma lookup_variants_byte:
  assumes "\<And>t. byte_operand t \<Longrightarrow> keeps (op_f t) (\<lambda>_. True)"
    and "list_all (\<lambda>(a, c, opcode, target). target = None \<and> a \<in> set value_modes) vs"
    and "lookup_variants k op_f ''v'' vs = Some fp"
  shows "keeps fp (\<lambda>_. True)"
  using assms(2,3)
proof (induction vs)
  case Nil
  then show ?case by simp
next
  case (Cons v vs)
  obtain a c opcode target where v: "v = (a, c, opcode, target)"
    by (cases v) auto
  have t: "target = None" "a \<in> set value_modes"
    using Cons.prems(1) by (simp_all add: v)
  show ?case
  proof (cases "k \<in> set opcode")
    case True
    then obtain a_f where "select_a_f ''v'' a None = Inr a_f" "fp = f_entry op_f a_f c"
      using Cons.prems(2) t by (auto simp: v split: sum.splits)
    then show ?thesis
      using keeps_f_entry[OF select_a_f_byte, of a a_f op_f c] assms(1) t by simp
  next
    case False
    then show ?thesis
      using Cons by (simp add: v)
  qed
qed

lemma lookup_ops_keeps:
  assumes "table_typed t" "lookup_ops k t = Some fp"
  shows "keeps fp (\<lambda>_. True)"
  using assms
proof (induction t)
  case Nil
  then show ?case by simp
next
  case (Cons e t)
  obtain opn atype addrs where e: "e = (opn, atype, addrs)"
    by (cases e) auto
  have rest: "table_typed t"
    using Cons.prems(1) by (simp add: table_typed_def)
  show ?case
  proof (cases "getattr_op opn")
    case None
    then show ?thesis
      using Cons rest by (simp add: e)
  next
    case (Some op_f)
    show ?thesis
    proof (cases "lookup_variants k op_f atype addrs")
      case None
      then show ?thesis
        using Cons rest Some by (simp add: e)
    next
      case found: (Some fp')
      then have fp: "fp' = fp"
        using Cons.prems(2) Some by (simp add: e)
      show ?thesis
      proof (cases "opn \<in> set byte_ops")
        case True
        then have "atype = ''v''"
          "list_all (\<lambda>(a, c, opcode, target). target = None \<and> a \<in> set value_modes) addrs"
          using Cons.prems(1) by (simp_all add: table_typed_def e)
        then show ?thesis
          using lookup_variants_byte[of op_f addrs k fp] getattr_op_keeps[OF Some] found fp
          by simp
      next
        case False
        then show ?thesis
          using lookup_variants_any[of op_f k atype addrs fp] getattr_op_keeps[OF Some] found fp
          by simp
      qed
    qed
  qed
qed

lemma ops_table_typed: "table_typed ops_table"
  by (simp add: table_typed_def ops_table_def byte_ops_def value_modes_def)

lemma keeps_step: "keeps step (\<lambda>_. True)"
proof -
  have 1: "keeps (\<lambda>st. (Inr (), st\<lparr>cc := 0\<rparr>)) (\<lambda>_. True)"
    by (simp add: keeps_def state_ok_def)
  have 3: "keeps (case ops_index opcode of
                    Inl e \<Rightarrow> raise e
                  | Inr k \<Rightarrow> (case ops k of None \<Rightarrow> raise TypeError | Some fp \<Rightarrow> fp)) (\<lambda>_. True)" for opcode
  proof (cases "ops_index opcode")
    case (Inl e)
    then show ?thesis by (simp add: keeps_raise)
  next
    case (Inr k)
    show ?thesis
    proof (cases "ops k")
      case None
      then show ?thesis using Inr by (simp add: keeps_raise)
    next
      case (Some fp)
      then have "keeps fp (\<lambda>_. True)"
        using lookup_ops_keeps[OF ops_table_typed, of k fp] by (simp add: ops_lookup)
      then show ?thesis using Inr Some by simp
    qed
  qed
  show ?thesis
    unfolding step_def thn_def
    by (rule keeps_bnd[OF 1], rule keeps_bnd[OF keeps_nextByte], rule 3)
qed

text \<open>
  Whether \<open>step\<close> returns or raises, the registers \<open>a\<close>, \<open>x\<close>, \<open>y\<close>, \<open>s\<close>, \<open>p\<close> and every
  byte of memory that were within 0..255 before are within 0..255 afterwards. (\<open>pc\<close> is
  not part of \<open>regs_ok\<close>: see \<open>pc_exceeds_16_bits\<close>.)
\<close>

theorem step_keeps_bytes:
  assumes "regs_ok (regs st)" "mem_ok (mmu st)"
  shows "regs_ok (regs (snd (step st))) \<and> mem_ok (mmu (snd (step st)))"
  using keeps_step assms by (simp add: keeps_def state_ok_def)

theorem step_keeps_bytes_witness:
  "regs_ok (regs brk_state) \<and> mem_ok (mmu brk_state) \<and>
   regs_ok (regs (snd (step brk_state))) \<and> mem_ok (mmu (snd (step brk_state)))"
proof -
  have r: "regs_ok (regs brk_state)" and m: "mem_ok (mmu brk_state)"
    by (simp_all add: brk_state_def regs_ok_def mem_ok_def is_byte_def)
  show ?thesis
    using step_keeps_bytes[OF r m] r m by simp
qed

end
